theory Spec2Isabelle
  imports Complex_Main
begin

section \<open>The parser state machine (parser-state-machine.ts)\<close>

text \<open>
  A function that may throw returns \<open>Inl\<close> of the thrown value for the throw and
  \<open>Inr value\<close> for a normal return.  Any value can be thrown.  The thrown values kept
  apart here are: an \<^verbatim>\<open>Error\<close> object whose \<^verbatim>\<open>message\<close> can be written, represented by
  the message (what \<^verbatim>\<open>new Error(message)\<close> makes, and what the run time throws as a
  \<^verbatim>\<open>TypeError\<close>); an \<^verbatim>\<open>Error\<close> object that was frozen; a string; \<^verbatim>\<open>null\<close>; and
  \<^verbatim>\<open>undefined\<close>.  Thrown numbers, booleans and other objects are left out.
\<close>

datatype error =
    Error string          \<comment> \<open>an \<^verbatim>\<open>Error\<close> object with this message, which can be written\<close>
  | FrozenError string    \<comment> \<open>\<^verbatim>\<open>Object.freeze(new Error(message))\<close>\<close>
  | ThrownString string   \<comment> \<open>\<^verbatim>\<open>throw 'text'\<close>\<close>
  | ThrownNull            \<comment> \<open>\<^verbatim>\<open>throw null\<close>\<close>
  | ThrownUndefined       \<comment> \<open>\<^verbatim>\<open>throw undefined\<close>\<close>

text \<open>
  \<^verbatim>\<open>ParsedOutput\<close>: the fields that \<^verbatim>\<open>startingOutput\<close> initialises.  The transaction
  type \<open>'t\<close>, the type \<open>'v\<close> of option values and the date type \<open>'d\<close> are left open.
  \<open>None\<close> stands for \<^verbatim>\<open>undefined\<close>.
\<close>

record ('t, 'v, 'd) ParsedOutput =
  incomes :: "'t list"
  expenses :: "'t list"
  filePath :: string
  yearPrefix :: "'v option"
  accountSuffix :: string
  endDate :: "'d option"
  startDate :: "'d option"

text \<open>
  \<^verbatim>\<open>InitOutput\<close>: the optional fragment of a format definition.  A field that the
  fragment does not carry is \<open>None\<close>.  The fragment is plain data, on which the
  \<^verbatim>\<open>JSON.parse(JSON.stringify(...))\<close> round trip yields a structurally equal copy.
\<close>

record ('t, 'v, 'd) InitOutput =
  init_incomes :: "'t list option"
  init_expenses :: "'t list option"
  init_filePath :: "string option"
  init_yearPrefix :: "'v option"
  init_accountSuffix :: "string option"
  init_endDate :: "'d option"
  init_startDate :: "'d option"

text \<open>Parser options: an object is a finite map from field names to values.\<close>

type_synonym 'v options = "string \<rightharpoonup> 'v"

type_synonym ('s, 't, 'v, 'd) performStateActionFunction =
  "'s \<Rightarrow> string \<Rightarrow> ('t, 'v, 'd) ParsedOutput \<Rightarrow> 'v options \<Rightarrow> error + ('t, 'v, 'd) ParsedOutput"

type_synonym 's nextStateFunction = "'s \<Rightarrow> string \<Rightarrow> error + 's"

record ('s, 't, 'v, 'd) ParserInitInput =
  action :: "('s, 't, 'v, 'd) performStateActionFunction"
  next' :: "'s nextStateFunction"
  endState :: 's
  initialState :: 's
  initOutput :: "('t, 'v, 'd) InitOutput option"
  defaultParserOptions :: "'v options option"

text \<open>
  Modelled from the spec: \<^verbatim>\<open>collapseDefaultParserOptions\<close> (parser-options.ts) is not
  among the source files.  The spec's option resolver overlays the format-specific
  defaults, when the format has any, onto the base defaults; the base defaults are a
  parameter.
\<close>

definition collapseDefaultParserOptions :: "'v options \<Rightarrow> 'v options option \<Rightarrow> 'v options" where
  "collapseDefaultParserOptions baseParserOptions inputDefaultParserOptions =
     baseParserOptions ++ (case inputDefaultParserOptions of None \<Rightarrow> Map.empty | Some d \<Rightarrow> d)"

text \<open>Lines 80-86: the object spread lets the caller's fields win over the defaults.\<close>

definition parserOptions :: "'v options \<Rightarrow> 'v options option \<Rightarrow> 'v options option \<Rightarrow> 'v options" where
  "parserOptions baseParserOptions defaultParserOptions' inputParserOptions =
     (let defaultOptions = collapseDefaultParserOptions baseParserOptions defaultParserOptions'
      in defaultOptions ++ (case inputParserOptions of None \<Rightarrow> Map.empty | Some m \<Rightarrow> m))"

text \<open>Lines 88-96: the scaffold.\<close>

definition startingOutput :: "string \<Rightarrow> 'v options \<Rightarrow> ('t, 'v, 'd) ParsedOutput" where
  "startingOutput filePath' opts =
     \<lparr>incomes = [], expenses = [], filePath = filePath', yearPrefix = opts ''yearPrefix'',
      accountSuffix = '''', endDate = None, startDate = None\<rparr>"

text \<open>Lines 99-102: the fields of the copied fragment are spread over the scaffold.\<close>

definition spreadInit :: "('t, 'v, 'd) ParsedOutput \<Rightarrow> ('t, 'v, 'd) InitOutput option \<Rightarrow> ('t, 'v, 'd) ParsedOutput" where
  "spreadInit out frag =
     (case frag of
        None \<Rightarrow> out
      | Some f \<Rightarrow>
          \<lparr>incomes = (case init_incomes f of None \<Rightarrow> incomes out | Some x \<Rightarrow> x),
           expenses = (case init_expenses f of None \<Rightarrow> expenses out | Some x \<Rightarrow> x),
           filePath = (case init_filePath f of None \<Rightarrow> filePath out | Some x \<Rightarrow> x),
           yearPrefix = (case init_yearPrefix f of None \<Rightarrow> yearPrefix out | Some x \<Rightarrow> Some x),
           accountSuffix = (case init_accountSuffix f of None \<Rightarrow> accountSuffix out | Some x \<Rightarrow> x),
           endDate = (case init_endDate f of None \<Rightarrow> endDate out | Some x \<Rightarrow> Some x),
           startDate = (case init_startDate f of None \<Rightarrow> startDate out | Some x \<Rightarrow> Some x)\<rparr>)"

text \<open>
  The loop of lines 104-128.  Besides the way the loop ends, the model returns what an
  observer of the run sees: the invocations of the two caller-supplied functions, in
  order and with their arguments, and the lines that were never pulled from the
  iterator.  The loop does not look into the output, whose type is left open.  The
  logging under \<^verbatim>\<open>DEBUG\<close> is left out.
\<close>

datatype ('s, 'o, 'v) call = ActionCall 's string 'o "'v options" | NextCall 's string

datatype 'o halt =
    AtEnd 'o        \<comment> \<open>the loop condition failed: the state is the end state\<close>
  | Exhausted 'o    \<comment> \<open>\<^verbatim>\<open>nextInput.done\<close> in a state other than the end state\<close>
  | Raised error    \<comment> \<open>the action or the transition function threw this value\<close>

fun loop ::
  "('s \<Rightarrow> string \<Rightarrow> 'o \<Rightarrow> 'v options \<Rightarrow> error + 'o) \<Rightarrow> 's nextStateFunction \<Rightarrow> 's \<Rightarrow> 'v options \<Rightarrow>
   's \<Rightarrow> 'o \<Rightarrow> string list \<Rightarrow> ('s, 'o, 'v) call list \<times> 'o halt \<times> string list" where
  "loop act nxt endState' opts state output [] =
     (if state = endState' then ([], AtEnd output, []) else ([], Exhausted output, []))"
| "loop act nxt endState' opts state output (input # inputs) =
     (if state = endState' then ([], AtEnd output, input # inputs)
      else
        (case act state input output opts of
           Inl thrown \<Rightarrow> ([ActionCall state input output opts], Raised thrown, inputs)
         | Inr output' \<Rightarrow>
             (case nxt state input of
                Inl thrown \<Rightarrow>
                  ([ActionCall state input output opts, NextCall state input], Raised thrown,
                   inputs)
              | Inr state' \<Rightarrow>
                  (case loop act nxt endState' opts state' output' inputs of
                     (calls, h, unread) \<Rightarrow>
                       (ActionCall state input output opts # NextCall state input # calls, h,
                        unread)))))"

text \<open>
  The catch block of lines 124-127.  The module is strict code, so the assignment
  \<^verbatim>\<open>error.message += ...\<close> changes the message of an \<^verbatim>\<open>Error\<close> object that can be
  written, and on the other thrown values throws a \<^verbatim>\<open>TypeError\<close> of its own, which is then
  what leaves the parse call: the property cannot be assigned on a frozen object, cannot
  be created on a string, and cannot be read of \<^verbatim>\<open>null\<close> or \<^verbatim>\<open>undefined\<close>.  The wording
  of these messages is the engine's, here V8's.
\<close>

definition quoted :: "string \<Rightarrow> string" where
  "quoted s = [CHR 0x27] @ s @ [CHR 0x27]"

fun rethrow :: "string \<Rightarrow> error \<Rightarrow> error" where
  "rethrow filePath' (Error message) = Error (message @ '' in file: '' @ filePath')"
| "rethrow filePath' (FrozenError message) =
     Error (''Cannot assign to read only property '' @ quoted ''message'' @ '' of object '' @
            quoted (''Error: '' @ message))"
| "rethrow filePath' (ThrownString s) =
     Error (''Cannot create property '' @ quoted ''message'' @ '' on string '' @ quoted s)"
| "rethrow filePath' ThrownNull =
     Error (''Cannot read properties of null (reading '' @ quoted ''message'' @ '')'')"
| "rethrow filePath' ThrownUndefined =
     Error (''Cannot read properties of undefined (reading '' @ quoted ''message'' @ '')'')"

text \<open>The run of one parse call: options, starting output, loop.\<close>

definition runStateMachine ::
  "'v options \<Rightarrow> ('s, 't, 'v, 'd) ParserInitInput \<Rightarrow> string \<Rightarrow> 'v options option \<Rightarrow> string list \<Rightarrow>
   ('s, ('t, 'v, 'd) ParsedOutput, 'v) call list \<times> ('t, 'v, 'd) ParsedOutput halt \<times> string list" where
  "runStateMachine baseParserOptions fmt filePath' inputParserOptions inputs =
     (let opts = parserOptions baseParserOptions (defaultParserOptions fmt) inputParserOptions;
          output = spreadInit (startingOutput filePath' opts) (initOutput fmt)
      in loop (action fmt) (next' fmt) (endState fmt) opts (initialState fmt) output inputs)"

text \<open>
  \<^verbatim>\<open>createParserStateMachine\<close>: the exhausted iterator throws (lines 107-114), a throw
  of the action or the transition function goes through the catch block (lines 124-127),
  and an empty account suffix throws after the loop (lines 130-137).
\<close>

definition createParserStateMachine ::
  "'v options \<Rightarrow> ('s, 't, 'v, 'd) ParserInitInput \<Rightarrow> string \<Rightarrow> 'v options option \<Rightarrow> string list \<Rightarrow>
   error + ('t, 'v, 'd) ParsedOutput" where
  "createParserStateMachine baseParserOptions fmt filePath' inputParserOptions inputs =
     (case runStateMachine baseParserOptions fmt filePath' inputParserOptions inputs of
        (calls, Exhausted output, unread) \<Rightarrow>
          Inl (Error (''Reached end of input before hitting end state on '' @ filePath output))
      | (calls, Raised thrown, unread) \<Rightarrow>
          Inl (rethrow filePath' thrown)
      | (calls, AtEnd output, unread) \<Rightarrow>
          (if accountSuffix output = ''''
           then Inl (Error (''Parse completed without filling in account suffix on '' @
                            filePath output))
           else Inr output))"

section \<open>The statement parser (statement-parser.ts)\<close>

text \<open>
  An optional property of an object literal is left out, is written with the value
  \<^verbatim>\<open>undefined\<close>, or is given.  The spread of lines 46-49 lets the default
  \<^verbatim>\<open>pdfProcessing\<close> stand only when the property is left out.
\<close>

datatype 'a property = Omitted | Undefined | Given 'a

text \<open>
  \<^verbatim>\<open>CreateStatementParserInput\<close> extends \<^verbatim>\<open>ParserInitInput\<close>.  Reading a PDF and validating
  an output may throw.  The returned \<^verbatim>\<open>StatementParser\<close> repeats two field names of the
  input, which are primed here.  The parser is asynchronous in the source; its rejection is
  the \<open>Inl\<close> of the model.  The default \<^verbatim>\<open>readPdf\<close> is a parameter.
\<close>

record ('s, 't, 'v, 'd, 'k) CreateStatementParserInput = "('s, 't, 'v, 'd) ParserInitInput" +
  pdfProcessing :: "(string \<Rightarrow> error + string list list) property"
  outputValidation :: "(('t, 'v, 'd) ParsedOutput \<Rightarrow> error + unit) option"
  parserKeywords :: "'k list"

record ('t, 'v, 'd, 'k) StatementParser =
  parser :: "string \<Rightarrow> 'v options option \<Rightarrow> bool \<Rightarrow> error + ('t, 'v, 'd) ParsedOutput"
  parserKeywords' :: "'k list"
  defaultParserOptions'' :: "'v options option"

text \<open>
  Modelled from the spec: \<^verbatim>\<open>flatten2dArray\<close> (augments/array.ts) is not among the source
  files.  The spec has the pages flattened into one ordered line sequence.
\<close>

definition flatten2dArray :: "'a list list \<Rightarrow> 'a list" where
  "flatten2dArray pages = concat pages"

text \<open>
  \<^verbatim>\<open>createStatementParser\<close> (lines 39-92) has no \<^verbatim>\<open>throw\<close> outside the parser function it
  returns, so its result is always an \<open>Inr\<close>.  The \<^verbatim>\<open>debug\<close> flag only switches logging
  on.
\<close>

definition createStatementParser ::
  "'v options \<Rightarrow> (string \<Rightarrow> error + string list list) \<Rightarrow>
   ('s, 't, 'v, 'd, 'k) CreateStatementParserInput \<Rightarrow> error + ('t, 'v, 'd, 'k) StatementParser" where
  "createStatementParser baseParserOptions readPdf rawInputs =
     (let pdfProcessing' =
            (case pdfProcessing rawInputs of
               Omitted \<Rightarrow> Some readPdf
             | Undefined \<Rightarrow> None
             | Given f \<Rightarrow> Some f)
      in Inr
           \<lparr>parser = (\<lambda>filePath' inputParserOptions debug.
              (case pdfProcessing' of
                 None \<Rightarrow> Inl (Error ''Missing pdf processing method'')
               | Some process \<Rightarrow>
                   (case process filePath' of
                      Inl e \<Rightarrow> Inl e
                    | Inr pdfPages \<Rightarrow>
                        (case createParserStateMachine baseParserOptions
                                (ParserInitInput.truncate rawInputs) filePath' inputParserOptions
                                (flatten2dArray pdfPages) of
                           Inl e \<Rightarrow> Inl e
                         | Inr output \<Rightarrow>
                             (case outputValidation rawInputs of
                                None \<Rightarrow> Inr output
                              | Some validate \<Rightarrow>
                                  (case validate output of
                                     Inl e \<Rightarrow> Inl e
                                   | Inr _ \<Rightarrow> Inr output)))))),
            parserKeywords' = parserKeywords rawInputs,
            defaultParserOptions'' = defaultParserOptions rawInputs\<rparr>)"

section \<open>Strings and regular expressions\<close>

text \<open>
  A string is the list of its code units, which are taken to be below 256 (the type
  \<open>char\<close>).  \<open>str_includes\<close> is \<^verbatim>\<open>String.prototype.includes\<close>.
\<close>

fun startsWith :: "string \<Rightarrow> string \<Rightarrow> bool" where
  "startsWith s [] = True"
| "startsWith [] (c # t) = False"
| "startsWith (a # s) (c # t) = (a = c \<and> startsWith s t)"

fun str_includes :: "string \<Rightarrow> string \<Rightarrow> bool" where
  "str_includes [] t = (t = [])"
| "str_includes (a # s) t = (startsWith (a # s) t \<or> str_includes s t)"

text \<open>
  The character classes \<^verbatim>\<open>\d\<close>, \<^verbatim>\<open>\w\<close> and \<^verbatim>\<open>\s\<close>, and the line terminators that
  \<^verbatim>\<open>.\<close> does not match, restricted to code units below 256.
\<close>

definition isDigit :: "char \<Rightarrow> bool" where
  "isDigit c \<longleftrightarrow> c \<in> set ''0123456789''"

definition isWordChar :: "char \<Rightarrow> bool" where
  "isWordChar c \<longleftrightarrow>
     c \<in> set ''abcdefghijklmnopqrstuvwxyzABCDEFGHIJKLMNOPQRSTUVWXYZ0123456789_''"

definition isWhiteSpace :: "char \<Rightarrow> bool" where
  "isWhiteSpace c \<longleftrightarrow> c \<in> set [CHR 0x09, CHR 0x0A, CHR 0x0B, CHR 0x0C, CHR 0x0D, CHR 0x20, CHR 0xA0]"

definition isLineTerminator :: "char \<Rightarrow> bool" where
  "isLineTerminator c \<longleftrightarrow> c = CHR 0x0A \<or> c = CHR 0x0D"

text \<open>
  \<^verbatim>\<open>String.prototype.toLowerCase\<close>: below 256 the upper-case letters are A to Z and
  0xC0 to 0xDE without 0xD7.
\<close>

definition toLowerCaseChar :: "char \<Rightarrow> char" where
  "toLowerCaseChar c =
     (let n = (of_char c :: nat)
      in if (65 \<le> n \<and> n \<le> 90) \<or> (192 \<le> n \<and> n \<le> 222 \<and> n \<noteq> 215)
         then char_of (n + 32) else c)"

definition toLowerCase :: "string \<Rightarrow> string" where
  "toLowerCase s = map toLowerCaseChar s"

definition toUpperAscii :: "char \<Rightarrow> char" where
  "toUpperAscii c =
     (let n = (of_char c :: nat) in if 97 \<le> n \<and> n \<le> 122 then char_of (n - 32) else c)"

text \<open>
  The regular expressions of the parser are sequences of quantified single-character atoms,
  capture-group brackets and the anchors \<^verbatim>\<open>^\<close> and \<^verbatim>\<open>$\<close>.  \<open>Rep a lo hi greedy\<close> is the
  atom \<open>a\<close> repeated \<open>lo\<close> to \<open>hi\<close> times.  Under the flag \<^verbatim>\<open>i\<close> a literal, always an ASCII
  character here, matches both of its cases.
\<close>

datatype atom = Lit char | Digit | WordChar | WhiteSpace | AnyChar | OneOf "atom list"

fun atomMatches :: "bool \<Rightarrow> atom \<Rightarrow> char \<Rightarrow> bool" where
  "atomMatches ignoreCase (Lit x) c =
     (if ignoreCase then toUpperAscii c = toUpperAscii x else c = x)"
| "atomMatches ignoreCase Digit c = isDigit c"
| "atomMatches ignoreCase WordChar c = isWordChar c"
| "atomMatches ignoreCase WhiteSpace c = isWhiteSpace c"
| "atomMatches ignoreCase AnyChar c = (\<not> isLineTerminator c)"
| "atomMatches ignoreCase (OneOf as) c = (\<exists>a \<in> set as. atomMatches ignoreCase a c)"

datatype node =
    Rep atom nat "nat option" bool
  | Open nat
  | Close nat
  | Bol
  | Eol

text \<open>
  Backtracking: a greedy repetition tries the longest run first and then shorter ones, a
  lazy one the shortest first; the first length for which the rest of the expression
  matches wins.  The result lists the text consumed by each node.
\<close>

fun tryLengths ::
  "(nat \<Rightarrow> string \<Rightarrow> string list option) \<Rightarrow> nat \<Rightarrow> string \<Rightarrow> nat list \<Rightarrow> string list option" where
  "tryLengths continue pos s [] = None"
| "tryLengths continue pos s (k # ks) =
     (case continue (pos + k) (drop k s) of
        Some segments \<Rightarrow> Some (take k s # segments)
      | None \<Rightarrow> tryLengths continue pos s ks)"

primrec matchNodes :: "bool \<Rightarrow> node list \<Rightarrow> nat \<Rightarrow> string \<Rightarrow> string list option" where
  "matchNodes ignoreCase [] = (\<lambda>pos s. Some [])"
| "matchNodes ignoreCase (n # ns) = (\<lambda>pos s.
     (case n of
        Rep a lo hi greedy \<Rightarrow>
          (let available = length (takeWhile (atomMatches ignoreCase a) s);
               most = (case hi of None \<Rightarrow> available | Some m \<Rightarrow> min m available);
               lengths = [lo..<Suc most]
           in tryLengths (matchNodes ignoreCase ns) pos s (if greedy then rev lengths else lengths))
      | Bol \<Rightarrow> (if pos = 0 then map_option ((#) []) (matchNodes ignoreCase ns pos s) else None)
      | Eol \<Rightarrow> (if s = [] then map_option ((#) []) (matchNodes ignoreCase ns pos s) else None)
      | Open g \<Rightarrow> map_option ((#) []) (matchNodes ignoreCase ns pos s)
      | Close g \<Rightarrow> map_option ((#) []) (matchNodes ignoreCase ns pos s)))"

text \<open>\<^verbatim>\<open>exec\<close> without the flag \<^verbatim>\<open>g\<close>: the leftmost start position that matches.\<close>

fun search :: "bool \<Rightarrow> node list \<Rightarrow> nat \<Rightarrow> string \<Rightarrow> string list option" where
  "search ignoreCase ns pos [] = matchNodes ignoreCase ns pos []"
| "search ignoreCase ns pos (c # s) =
     (case matchNodes ignoreCase ns pos (c # s) of
        Some segments \<Rightarrow> Some segments
      | None \<Rightarrow> search ignoreCase ns (Suc pos) s)"

fun groupText :: "nat \<Rightarrow> bool \<Rightarrow> node list \<Rightarrow> string list \<Rightarrow> string" where
  "groupText g inside (Open h # ns) (seg # segs) = groupText g (inside \<or> h = g) ns segs"
| "groupText g inside (Close h # ns) (seg # segs) = groupText g (inside \<and> h \<noteq> g) ns segs"
| "groupText g inside (n # ns) (seg # segs) =
     (if inside then seg else []) @ groupText g inside ns segs"
| "groupText g inside ns segs = []"

text \<open>
  \<^verbatim>\<open>String.prototype.match\<close>: \<open>None\<close> for \<^verbatim>\<open>null\<close>, otherwise the matched text at index 0
  and the text of group \<open>g\<close> at index \<open>g\<close>.
\<close>

record RegExp =
  nodes :: "node list"
  ignoreCase :: bool
  groups :: nat

definition match :: "string \<Rightarrow> RegExp \<Rightarrow> string list option" where
  "match s re =
     map_option
       (\<lambda>segments.
          concat segments # map (\<lambda>g. groupText g False (nodes re) segments) [1..<Suc (groups re)])
       (search (ignoreCase re) (nodes re) 0 s)"

definition lit :: "string \<Rightarrow> node list" where
  "lit s = map (\<lambda>c. Rep (Lit c) 1 (Some 1) True) s"

definition pageEndRegExp :: RegExp where
  "pageEndRegExp =
     \<lparr>nodes = [Bol] @ lit ''page'' @ [Rep WhiteSpace 1 None True, Rep Digit 1 None True, Eol],
      ignoreCase = True, groups = 0\<rparr>"

definition activityHeader :: RegExp where
  "activityHeader =
     \<lparr>nodes = lit ''date'' @ [Rep WhiteSpace 1 None True] @ lit ''description'' @
        [Rep WhiteSpace 1 None True] @ lit ''currency'' @ [Rep WhiteSpace 1 None True] @
        lit ''amount'' @ [Rep WhiteSpace 1 None True] @ lit ''fees'' @
        [Rep WhiteSpace 1 None True] @ lit ''total'',
      ignoreCase = True, groups = 0\<rparr>"

definition namedDate :: "node list" where
  "namedDate =
     [Rep WordChar 1 (Some 3) True] @ lit '' '' @ [Rep Digit 1 (Some 2) True,
      Rep (Lit CHR '','') 0 (Some 1) True] @ lit '' '' @ [Rep Digit 1 (Some 4) True]"

definition headerDataLineRegExp :: RegExp where
  "headerDataLineRegExp =
     \<lparr>nodes = [Open 1] @ namedDate @ [Close 1, Rep WhiteSpace 0 None True] @ lit ''-'' @
        [Rep WhiteSpace 0 None True, Open 2] @ namedDate @ [Close 2, Rep WhiteSpace 0 None True,
        Open 3, Rep AnyChar 1 None True, Close 3, Eol],
      ignoreCase = False, groups = 3\<rparr>"

definition numberColumn :: atom where
  "numberColumn = OneOf [Lit CHR ''-'', Lit CHR '','', Lit CHR ''.'', Digit]"

definition transactionStartRegExp :: RegExp where
  "transactionStartRegExp =
     \<lparr>nodes = [Bol, Open 1, Rep Digit 1 (Some 2) True] @ lit ''/'' @ [Rep Digit 1 (Some 2) True] @
        lit ''/'' @ [Rep Digit 1 (Some 4) True, Close 1, Rep WhiteSpace 1 None True,
        Open 2, Rep AnyChar 1 None False, Close 2] @ lit ''USD'' @ [Rep WhiteSpace 1 None True,
        Open 3, Rep numberColumn 1 None True, Close 3, Rep WhiteSpace 1 None True,
        Open 4, Rep numberColumn 1 None True, Close 4, Rep WhiteSpace 1 None True,
        Open 5, Rep numberColumn 1 None True, Close 5, Eol],
      ignoreCase = True, groups = 5\<rparr>"

section \<open>Numbers\<close>

text \<open>
  A number is \<^verbatim>\<open>NaN\<close> or a rational; the rounding of a decimal literal to a double is not
  modelled.  \<open>Number\<close> reads white space, an optional sign and a decimal literal with an
  optional fraction, and the empty string as 0.  The other literals that JavaScript
  accepts (exponents, hexadecimal, \<^verbatim>\<open>Infinity\<close>) cannot be written with the characters of the
  number columns \<^verbatim>\<open>[-,.\d]\<close> and read as \<^verbatim>\<open>NaN\<close> here.
\<close>

datatype jsnumber = NaN | Finite rat

definition Math_abs :: "jsnumber \<Rightarrow> jsnumber" where
  "Math_abs x = (case x of NaN \<Rightarrow> NaN | Finite r \<Rightarrow> Finite \<bar>r\<bar>)"

definition lessThanZero :: "jsnumber \<Rightarrow> bool" where
  "lessThanZero x = (case x of NaN \<Rightarrow> False | Finite r \<Rightarrow> r < 0)"

definition negate :: "jsnumber \<Rightarrow> jsnumber" where
  "negate x = (case x of NaN \<Rightarrow> NaN | Finite r \<Rightarrow> Finite (- r))"

definition digitValue :: "char \<Rightarrow> nat" where
  "digitValue c = of_char c - 48"

definition decimalValue :: "string \<Rightarrow> nat" where
  "decimalValue ds = foldl (\<lambda>n c. 10 * n + digitValue c) 0 ds"

definition trim :: "string \<Rightarrow> string" where
  "trim s = rev (dropWhile isWhiteSpace (rev (dropWhile isWhiteSpace s)))"

definition unsignedNumber :: "string \<Rightarrow> jsnumber" where
  "unsignedNumber b =
     (let whole = takeWhile isDigit b
      in case dropWhile isDigit b of
           [] \<Rightarrow> (if whole = [] then NaN else Finite (of_nat (decimalValue whole)))
         | c # fraction \<Rightarrow>
             (if c = CHR ''.'' \<and> list_all isDigit fraction \<and> (whole \<noteq> [] \<or> fraction \<noteq> [])
              then Finite (of_nat (decimalValue whole) +
                     of_nat (decimalValue fraction) / 10 ^ length fraction)
              else NaN))"

definition Number :: "string \<Rightarrow> jsnumber" where
  "Number s =
     (case trim s of
        [] \<Rightarrow> Finite 0
      | c # b \<Rightarrow>
          (if c = CHR ''-'' then negate (unsignedNumber b)
           else if c = CHR ''+'' then unsignedNumber b
           else unsignedNumber (c # b)))"

section \<open>The PayPal parser (paypal-parser.ts)\<close>

text \<open>
  A date is a year, a month and a day.  The helpers that the parser imports from
  \<^verbatim>\<open>augments/date\<close> and \<^verbatim>\<open>augments/string\<close> are not among the source files; the parser takes
  them as the parameter \<open>aug\<close>.  The date helpers may throw.
\<close>

type_synonym Date = "int \<times> int \<times> int"

record augments =
  dateFromNamedCommaFormat :: "string \<Rightarrow> error + Date"
  dateFromSlashFormat :: "string \<Rightarrow> error + Date"
  collapseSpaces :: "string \<Rightarrow> string"
  sanitizeNumberString :: "string \<Rightarrow> string"

datatype State = Header | HeaderData | Activity | ExpenseInside | IncomeInside | ActivityHeader | End

record PaypalTransaction =
  date :: Date
  description :: string
  amount :: jsnumber
  fees :: jsnumber
  baseAmount :: jsnumber
  originalText :: "string list"

type_synonym 'v PaypalOutput = "(PaypalTransaction, 'v, Date) ParsedOutput"

text \<open>
  The message of the \<^verbatim>\<open>TypeError\<close> for a property read of \<^verbatim>\<open>undefined\<close> (the wording
  is the engine's, here V8's).
\<close>

definition readOfUndefined :: "string \<Rightarrow> string" where
  "readOfUndefined name =
     ''Cannot read properties of undefined (reading '' @ [CHR 0x27] @ name @ [CHR 0x27] @ '')''"

text \<open>
  Lines 75-77 and 79-81: the line is appended to the last transaction of the list;
  reading \<^verbatim>\<open>description\<close> of the last element of an empty array throws.
\<close>

definition appendLine :: "augments \<Rightarrow> string \<Rightarrow> PaypalTransaction list \<Rightarrow> error + PaypalTransaction list" where
  "appendLine aug line transactions =
     (case transactions of
        [] \<Rightarrow> Inl (Error (readOfUndefined ''description''))
      | _ # _ \<Rightarrow>
          (let lastOne = last transactions
           in Inr (butlast transactions @
                [lastOne\<lparr>description := description lastOne @ [CHR 0x0A] @ collapseSpaces aug line,
                         originalText := originalText lastOne @ [line]\<rparr>])))"

definition performStateAction ::
  "augments \<Rightarrow> (State, PaypalTransaction, 'v, Date) performStateActionFunction" where
  "performStateAction aug currentState line output opts =
     (if currentState = HeaderData \<and> startDate output = None then
        (case match line headerDataLineRegExp of
           None \<Rightarrow> Inr output
         | Some m \<Rightarrow>
             (case dateFromNamedCommaFormat aug (m ! 1) of
                Inl e \<Rightarrow> Inl e
              | Inr startDate' \<Rightarrow>
                  (case dateFromNamedCommaFormat aug (m ! 2) of
                     Inl e \<Rightarrow> Inl e
                   | Inr endDate' \<Rightarrow>
                       Inr (output\<lparr>startDate := Some startDate', endDate := Some endDate',
                                   accountSuffix := m ! 3\<rparr>))))
      else if currentState = Activity then
        (case match line transactionStartRegExp of
           None \<Rightarrow> Inr output
         | Some m \<Rightarrow>
             (let amount' = Number (sanitizeNumberString aug (m ! 3))
              in case dateFromSlashFormat aug (m ! 1) of
                   Inl e \<Rightarrow> Inl e
                 | Inr d \<Rightarrow>
                     (let newTransaction =
                        \<lparr>date = d,
                         description = collapseSpaces aug (m ! 2),
                         amount = Math_abs (Number (sanitizeNumberString aug (m ! 5))),
                         fees = Math_abs (Number (sanitizeNumberString aug (m ! 4))),
                         baseAmount = Math_abs amount',
                         originalText = [line]\<rparr>
                      in if lessThanZero amount'
                         then Inr (output\<lparr>expenses := expenses output @ [newTransaction]\<rparr>)
                         else Inr (output\<lparr>incomes := incomes output @ [newTransaction]\<rparr>))))
      else if currentState = ExpenseInside \<and> line \<noteq> [] then
        (case appendLine aug line (expenses output) of
           Inl e \<Rightarrow> Inl e
         | Inr es \<Rightarrow> Inr (output\<lparr>expenses := es\<rparr>))
      else if currentState = IncomeInside \<and> line \<noteq> [] then
        (case appendLine aug line (incomes output) of
           Inl e \<Rightarrow> Inl e
         | Inr ins \<Rightarrow> Inr (output\<lparr>incomes := ins\<rparr>))
      else Inr output)"

definition nextState :: "augments \<Rightarrow> State \<Rightarrow> string \<Rightarrow> State" where
  "nextState aug currentState line0 =
     (let line = toLowerCase line0
      in if str_includes line ''you must notify us no later than'' then End
         else
           (case currentState of
              Header \<Rightarrow>
                (if str_includes line ''statement period'' then HeaderData
                 else if match line activityHeader \<noteq> None then ActivityHeader
                 else currentState)
            | ActivityHeader \<Rightarrow> (if line = [] then Activity else currentState)
            | HeaderData \<Rightarrow> Header
            | ExpenseInside \<Rightarrow> (if line = [] then Activity else currentState)
            | IncomeInside \<Rightarrow> (if line = [] then Activity else currentState)
            | Activity \<Rightarrow>
                (case match line transactionStartRegExp of
                   Some m \<Rightarrow>
                     (if lessThanZero (Number (sanitizeNumberString aug (m ! 5)))
                      then ExpenseInside else IncomeInside)
                 | None \<Rightarrow>
                     (if match line pageEndRegExp \<noteq> None then Header else currentState))
            | End \<Rightarrow> currentState))"

text \<open>
  The \<^verbatim>\<open>ParserInitInput\<close> part of the argument of \<^verbatim>\<open>createStatementParser\<close> (lines 39-45).
  \<^verbatim>\<open>nextState\<close> does not throw.
\<close>

definition paypalInit :: "augments \<Rightarrow> (State, PaypalTransaction, 'v, Date) ParserInitInput" where
  "paypalInit aug =
     \<lparr>action = performStateAction aug,
      next' = (\<lambda>currentState line. Inr (nextState aug currentState line)),
      endState = End,
      initialState = Header,
      initOutput = None,
      defaultParserOptions = None\<rparr>"

section \<open>Objects with identity: the output in a store\<close>

text \<open>
  Whether two outputs share an array or an object cannot be read off the values of the
  sections above.  Here an object or an array lives at an address of a store, and a value
  is a primitive or a reference.  Allocation appends to the store.  A reference to an
  address outside the store does not occur in a JavaScript heap; here it has no
  properties and cannot be serialised.
\<close>

type_synonym addr = nat

datatype jsval = JUndefined | JNull | JBool bool | JNum int | JStr string | JFunction nat | JRef addr

datatype jsobj = JObject "(string \<times> jsval) list" | JArray "jsval list"

type_synonym store = "jsobj list"









text \<open>
  An object spread copies the own properties of an object, a later value replacing an
  earlier one under the same key.  The fragment has an object type, so the properties of
  other values are not needed and are taken to be none.
\<close>

fun setProperty :: "(string \<times> jsval) list \<Rightarrow> string \<times> jsval \<Rightarrow> (string \<times> jsval) list" where
  "setProperty [] (k, v) = [(k, v)]"
| "setProperty ((k', v') # ps) (k, v) =
     (if k' = k then (k, v) # ps else (k', v') # setProperty ps (k, v))"


definition ownProperties :: "store \<Rightarrow> jsval \<Rightarrow> (string \<times> jsval) list" where
  "ownProperties st v =
     (case v of
        JRef a \<Rightarrow> (if a < length st then (case st ! a of JObject ps \<Rightarrow> ps | JArray vs \<Rightarrow> []) else [])
      | _ \<Rightarrow> [])"



definition property :: "store \<Rightarrow> jsval \<Rightarrow> string \<Rightarrow> jsval" where
  "property st v k =
     (case map_of (ownProperties st v) k of None \<Rightarrow> JUndefined | Some x \<Rightarrow> x)"




section \<open>Notions used to state the properties\<close>

text \<open>
  \<open>actionCalls\<close> are the arguments of the action calls of a run, in order, and \<open>paired\<close> is
  the run of calls in which every action call is followed by the transition call on the
  same state and line.  \<open>raises\<close> says that a call throws a value.  \<open>keepsFilePath\<close> and
  \<open>fragmentKeepsFilePath\<close> say that an action, or a fragment, leaves \<^verbatim>\<open>filePath\<close> as it
  is.  \<open>specPrecedence\<close> is the option precedence in the words of the spec: the caller's
  override, otherwise the format's default, otherwise the base default.
\<close>

definition actionCalls :: "('s, 'o, 'v) call list \<Rightarrow> ('s \<times> string \<times> 'o \<times> 'v options) list" where
  "actionCalls cs =
     concat (map (\<lambda>c. case c of ActionCall s l out opts \<Rightarrow> [(s, l, out, opts)] | NextCall s l \<Rightarrow> []) cs)"

fun paired :: "('s \<times> string \<times> 'o \<times> 'v options) list \<Rightarrow> ('s, 'o, 'v) call list" where
  "paired [] = []"
| "paired ((s, l, out, opts) # steps) = ActionCall s l out opts # NextCall s l # paired steps"

definition raises ::
  "('s, 't, 'v, 'd) performStateActionFunction \<Rightarrow> 's nextStateFunction \<Rightarrow>
   ('s, ('t, 'v, 'd) ParsedOutput, 'v) call \<Rightarrow> error \<Rightarrow> bool" where
  "raises act nxt c thrown =
     (case c of
        ActionCall s l out opts \<Rightarrow> act s l out opts = Inl thrown
      | NextCall s l \<Rightarrow> nxt s l = Inl thrown)"

definition keepsFilePath :: "('s, 't, 'v, 'd) performStateActionFunction \<Rightarrow> 'v options \<Rightarrow> bool" where
  "keepsFilePath act opts \<longleftrightarrow>
     (\<forall>s l out out'. act s l out opts = Inr out' \<longrightarrow> filePath out' = filePath out)"

definition fragmentKeepsFilePath :: "('t, 'v, 'd) InitOutput option \<Rightarrow> bool" where
  "fragmentKeepsFilePath frag = (case frag of None \<Rightarrow> True | Some f \<Rightarrow> init_filePath f = None)"

definition specPrecedence ::
  "'v options \<Rightarrow> 'v options option \<Rightarrow> 'v options option \<Rightarrow> string \<Rightarrow> 'v option" where
  "specPrecedence baseDefaults formatDefaults callerOverrides field =
     (case (case callerOverrides of None \<Rightarrow> None | Some c \<Rightarrow> c field) of
        Some v \<Rightarrow> Some v
      | None \<Rightarrow>
          (case (case formatDefaults of None \<Rightarrow> None | Some d \<Rightarrow> d field) of
             Some v \<Rightarrow> Some v
           | None \<Rightarrow> baseDefaults field))"

subsection \<open>Reachable objects and the placement of new objects\<close>

text \<open>
  \<open>reach st a b\<close>: the object at \<open>b\<close> is \<open>a\<close> or is reached from \<open>a\<close> through properties and
  elements.  \<open>shift d\<close> moves a reference by \<open>d\<close> addresses: objects allocated by two calls
  at different ends of the store are compared through it.  \<open>template\<close> is the starting
  output built on the empty store from the text of the fragment.
\<close>

fun valueRefs :: "jsval \<Rightarrow> addr set" where
  "valueRefs (JRef a) = {a}"
| "valueRefs _ = {}"

fun refs :: "jsobj \<Rightarrow> addr set" where
  "refs (JObject ps) = (\<Union>p \<in> set ps. valueRefs (snd p))"
| "refs (JArray vs) = (\<Union>v \<in> set vs. valueRefs v)"

inductive reach :: "store \<Rightarrow> addr \<Rightarrow> addr \<Rightarrow> bool" for st :: store and a :: addr where
  here: "reach st a a"
| deref: "reach st a b \<Longrightarrow> b < length st \<Longrightarrow> c \<in> refs (st ! b) \<Longrightarrow> reach st a c"







subsection \<open>Small format definitions for concrete runs\<close>

text \<open>
  Format definitions with two states, \<open>False\<close> the initial and \<open>True\<close> the end state, and
  the base options \<^verbatim>\<open>{yearPrefix: 20}\<close>.  \<open>example_augments\<close> gives the helpers of the
  PayPal parser on the strings of the two statements below: white space is trimmed,
  commas are removed from numbers, and the three dates are read.
\<close>

definition example_base :: "nat options" where
  "example_base = [''yearPrefix'' \<mapsto> 20]"

definition idle_action :: "(bool, unit, nat, unit) performStateActionFunction" where
  "idle_action s l out opts = Inr out"

definition renaming_action :: "(bool, unit, nat, unit) performStateActionFunction" where
  "renaming_action s l out opts = Inr (out\<lparr>filePath := ''other''\<rparr>)"

definition suffix_action :: "(bool, unit, nat, unit) performStateActionFunction" where
  "suffix_action s l out opts = Inr (out\<lparr>accountSuffix := l\<rparr>)"

definition throwing_action :: "(bool, unit, nat, unit) performStateActionFunction" where
  "throwing_action s l out opts = Inl (Error ''boom'')"


definition picky_action :: "(bool, unit, nat, unit) performStateActionFunction" where
  "picky_action s l out opts = (if l = ''y'' then Inl (Error ''boom'') else Inr out)"

definition stay :: "bool nextStateFunction" where
  "stay s l = Inr s"

definition finish :: "bool nextStateFunction" where
  "finish s l = Inr True"

definition example_format ::
  "(bool, unit, nat, unit) performStateActionFunction \<Rightarrow> bool nextStateFunction \<Rightarrow>
   (bool, unit, nat, unit) ParserInitInput" where
  "example_format act nxt =
     \<lparr>action = act, next' = nxt, endState = True, initialState = False,
      initOutput = None, defaultParserOptions = None\<rparr>"

definition example_output :: "(unit, nat, unit) ParsedOutput" where
  "example_output = startingOutput ''a.pdf'' example_base"

definition bonus_action :: "(bool, unit, nat, unit) performStateActionFunction" where
  "bonus_action s l out opts =
     (case opts ''bonus'' of
        None \<Rightarrow> Inr (out\<lparr>accountSuffix := ''no bonus''\<rparr>)
      | Some b \<Rightarrow> Inr (out\<lparr>accountSuffix := ''bonus''\<rparr>))"

definition example_pdf :: "string \<Rightarrow> error + string list list" where
  "example_pdf path = Inr [[''x''], [''y'']]"

definition bonus_input :: "(bool, unit, nat, unit, string) CreateStatementParserInput" where
  "bonus_input =
     \<lparr>action = bonus_action, next' = finish, endState = True, initialState = False,
      initOutput = None, defaultParserOptions = None,
      pdfProcessing = Given example_pdf, outputValidation = None, parserKeywords = []\<rparr>"

definition layered_input :: "(bool, unit, nat, unit, string) CreateStatementParserInput" where
  "layered_input =
     \<lparr>action = bonus_action, next' = finish, endState = True, initialState = False,
      initOutput = None, defaultParserOptions = Some [''yearPrefix'' \<mapsto> 19, ''bonus'' \<mapsto> 2],
      pdfProcessing = Given example_pdf, outputValidation = None, parserKeywords = []\<rparr>"

definition scenario :: "string list" where
  "scenario =
     [''header'', ''statement period'', ''Jan 1, 2021 - Jan 31, 2021 1234'',
      ''date description currency amount fees total'', '''',
      ''1/5/2021 Coffee Shop USD -4.50 0.00 -4.50'', '''',
      ''you must notify us no later than ...'']"

definition example_augments :: augments where
  "example_augments =
     \<lparr>dateFromNamedCommaFormat = (\<lambda>s.
        if s = ''Jan 1, 2021'' then Inr (2021, 1, 1)
        else if s = ''Jan 31, 2021'' then Inr (2021, 1, 31)
        else Inl (Error ''Invalid date'')),
      dateFromSlashFormat = (\<lambda>s.
        if s = ''1/5/2021'' then Inr (2021, 1, 5) else Inl (Error ''Invalid date'')),
      collapseSpaces = trim,
      sanitizeNumberString = filter (\<lambda>c. c \<noteq> CHR '','')\<rparr>"

definition fee_scenario :: "string list" where
  "fee_scenario =
     [''date description currency amount fees total'', '''',
      ''1/5/2021 Refund USD 1.00 -2.00 -1.00'', ''more'']"




definition assign :: "store \<Rightarrow> addr \<Rightarrow> string \<Rightarrow> jsval \<Rightarrow> store" where
  "assign st a k v = st[a := JObject (setProperty (ownProperties st (JRef a)) (k, v))]"












section \<open>Properties of the loop\<close>

lemma startsWith_iff: "startsWith s t \<longleftrightarrow> (\<exists>q. s = t @ q)"
  by (induction s t rule: startsWith.induct) auto

lemma str_includes_iff: "str_includes s t \<longleftrightarrow> (\<exists>p q. s = p @ t @ q)"
proof (induction s)
  case Nil
  then show ?case by auto
next
  case (Cons a s)
  show ?case
  proof
    assume "str_includes (a # s) t"
    then consider "startsWith (a # s) t" | "str_includes s t" by auto
    then show "\<exists>p q. a # s = p @ t @ q"
    proof cases
      case 1
      then obtain q where "a # s = t @ q" by (auto simp: startsWith_iff)
      then have "a # s = [] @ t @ q" by simp
      then show ?thesis by blast
    next
      case 2
      then obtain p q where "s = p @ t @ q" using Cons.IH by auto
      then have "a # s = (a # p) @ t @ q" by simp
      then show ?thesis by blast
    qed
  next
    assume "\<exists>p q. a # s = p @ t @ q"
    then obtain p q where pq: "a # s = p @ t @ q" by auto
    show "str_includes (a # s) t"
    proof (cases p)
      case Nil
      then have "startsWith (a # s) t" using pq by (simp only: startsWith_iff) auto
      then show ?thesis by simp
    next
      case (Cons b p')
      then have "s = p' @ t @ q" using pq by simp
      then show ?thesis using Cons.IH by auto
    qed
  qed
qed

lemma str_includes_suffix: "str_includes (p @ t) t"
  unfolding str_includes_iff by (rule exI [of _ p], rule exI [of _ "[]"]) simp

lemma loop_Nil_cases:
  assumes "loop act nxt e opts st out [] = (cs, h, u)"
  obtains (stop) "st = e" "cs = []" "h = AtEnd out" "u = []"
  | (exhausted) "st \<noteq> e" "cs = []" "h = Exhausted out" "u = []"
  using assms by (cases "st = e") simp_all

lemma loop_Cons_cases:
  assumes "loop act nxt e opts st out (l # ls) = (cs, h, u)"
  obtains
    (stop) "st = e" "cs = []" "h = AtEnd out" "u = l # ls"
  | (action_throws) message where "st \<noteq> e" "act st l out opts = Inl message"
      "cs = [ActionCall st l out opts]" "h = Raised message" "u = ls"
  | (next_throws) out' message where "st \<noteq> e" "act st l out opts = Inr out'"
      "nxt st l = Inl message" "cs = [ActionCall st l out opts, NextCall st l]"
      "h = Raised message" "u = ls"
  | (step) out' st' cs' where "st \<noteq> e" "act st l out opts = Inr out'" "nxt st l = Inr st'"
      "loop act nxt e opts st' out' ls = (cs', h, u)"
      "cs = ActionCall st l out opts # NextCall st l # cs'"
proof (cases "st = e")
  case True
  with assms that(1) show ?thesis by simp
next
  case ne: False
  show ?thesis
  proof (cases "act st l out opts")
    case (Inl message)
    with ne assms that(2) show ?thesis by simp
  next
    case (Inr out')
    note a = this
    show ?thesis
    proof (cases "nxt st l")
      case (Inl message)
      with ne a assms that(3) show ?thesis by simp
    next
      case (Inr st')
      obtain cs' h' u' where rec: "loop act nxt e opts st' out' ls = (cs', h', u')"
        by (cases "loop act nxt e opts st' out' ls") auto
      with ne a Inr assms have "cs = ActionCall st l out opts # NextCall st l # cs'" "h = h'" "u = u'"
        by simp_all
      with ne a Inr rec that(4) show ?thesis by simp
    qed
  qed
qed

lemma loop_AtEnd_append:
  "loop act nxt e opts st out ls = (cs, AtEnd out', u) \<Longrightarrow>
   loop act nxt e opts st out (ls @ extra) = (cs, AtEnd out', u @ extra)"
proof (induction ls arbitrary: st out cs)
  case Nil
  from Nil show ?case
  proof (cases rule: loop_Nil_cases)
    case stop
    then show ?thesis by (cases extra) simp_all
  next
    case exhausted
    then show ?thesis by simp
  qed
next
  case (Cons l ls)
  from Cons.prems show ?case
  proof (cases rule: loop_Cons_cases)
    case (step out1 st' cs')
    from Cons.IH [OF step(4)] step show ?thesis by simp
  qed simp_all
qed

lemma actionCalls_simps:
  "actionCalls [] = []"
  "actionCalls (ActionCall s l out opts # cs) = (s, l, out, opts) # actionCalls cs"
  "actionCalls (NextCall s l # cs) = actionCalls cs"
  by (simp_all add: actionCalls_def)

lemma loop_consumed:
  "loop act nxt e opts st out ls = (cs, h, u) \<Longrightarrow>
   map (fst \<circ> snd) (actionCalls cs) @ u = ls"
proof (induction ls arbitrary: st out cs)
  case Nil
  from Nil show ?case by (cases rule: loop_Nil_cases) (simp_all add: actionCalls_simps)
next
  case (Cons l ls)
  from Cons.prems show ?case
  proof (cases rule: loop_Cons_cases)
    case (step out1 st' cs')
    from Cons.IH [OF step(4)] step show ?thesis by (simp add: actionCalls_simps)
  qed (simp_all add: actionCalls_simps)
qed

lemma paired_eq_Nil: "paired steps = [] \<longleftrightarrow> steps = []"
  by (cases steps) auto

lemma loop_calls_shape:
  "loop act nxt e opts st out ls = (cs, h, u) \<Longrightarrow>
   cs = paired (actionCalls cs) \<or>
   (actionCalls cs \<noteq> [] \<and> cs = butlast (paired (actionCalls cs)) \<and>
    (\<exists>message. h = Raised message \<and>
       (case last (actionCalls cs) of (s, l, out', _) \<Rightarrow> act s l out' opts = Inl message)))"
proof (induction ls arbitrary: st out cs)
  case Nil
  from Nil show ?case by (cases rule: loop_Nil_cases) (simp_all add: actionCalls_simps)
next
  case (Cons l ls)
  from Cons.prems show ?case
  proof (cases rule: loop_Cons_cases)
    case (step out1 st' cs')
    have ac: "actionCalls cs = (st, l, out, opts) # actionCalls cs'"
      unfolding step(5) by (simp add: actionCalls_simps)
    have pc: "paired (actionCalls cs) =
        ActionCall st l out opts # NextCall st l # paired (actionCalls cs')"
      unfolding ac by simp
    from Cons.IH [OF step(4)] show ?thesis
    proof
      assume eq: "cs' = paired (actionCalls cs')"
      have "cs = paired (actionCalls cs)"
        unfolding pc unfolding step(5) by (simp only: eq [symmetric])
      then show ?thesis ..
    next
      assume a: "actionCalls cs' \<noteq> [] \<and> cs' = butlast (paired (actionCalls cs')) \<and>
        (\<exists>message. h = Raised message \<and>
           (case last (actionCalls cs') of (s, l, out', _) \<Rightarrow> act s l out' opts = Inl message))"
      then have ne: "actionCalls cs' \<noteq> []"
        and eq: "cs' = butlast (paired (actionCalls cs'))"
        and r: "\<exists>message. h = Raised message \<and>
           (case last (actionCalls cs') of (s, l, out', _) \<Rightarrow> act s l out' opts = Inl message)"
        by blast+
      from ne have pne: "paired (actionCalls cs') \<noteq> []" by (simp add: paired_eq_Nil)
      have bl: "butlast (paired (actionCalls cs)) =
          ActionCall st l out opts # NextCall st l # butlast (paired (actionCalls cs'))"
        unfolding pc using pne by simp
      have 1: "cs = butlast (paired (actionCalls cs))"
        unfolding bl unfolding step(5) by (simp only: eq [symmetric])
      have 2: "actionCalls cs \<noteq> []" unfolding ac by simp
      have 3: "last (actionCalls cs) = last (actionCalls cs')" unfolding ac using ne by simp
      from 1 2 r show ?thesis unfolding 3 by blast
    qed
  qed (simp_all add: actionCalls_simps)
qed

lemma loop_raises_last:
  "loop act nxt e opts st out ls = (cs, h, u) \<Longrightarrow> c \<in> set cs \<Longrightarrow> raises act nxt c message \<Longrightarrow>
   h = Raised message \<and> c = last cs \<and> c \<notin> set (butlast cs)"
proof (induction ls arbitrary: st out cs)
  case Nil
  from Nil.prems(1) Nil.prems(2) show ?case by (cases rule: loop_Nil_cases) simp_all
next
  case (Cons l ls)
  from Cons.prems(1) show ?case
  proof (cases rule: loop_Cons_cases)
    case stop
    with Cons.prems(2) show ?thesis by simp
  next
    case (action_throws m)
    with Cons.prems(2,3) show ?thesis by (simp add: raises_def)
  next
    case (next_throws out1 m)
    with Cons.prems(2,3) show ?thesis by (auto simp: raises_def)
  next
    case (step out1 st' cs')
    have n1: "\<not> raises act nxt (ActionCall st l out opts) message"
      using step(2) by (simp add: raises_def)
    have n2: "\<not> raises act nxt (NextCall st l) message"
      using step(3) by (simp add: raises_def)
    from Cons.prems(2,3) n1 n2 have mem: "c \<in> set cs'" and c1: "c \<noteq> ActionCall st l out opts"
      and c2: "c \<noteq> NextCall st l"
      unfolding step(5) by auto
    from Cons.IH [OF step(4) mem Cons.prems(3)]
    have "h = Raised message" and "c = last cs'" and "c \<notin> set (butlast cs')" by auto
    moreover from mem have "cs' \<noteq> []" by auto
    ultimately show ?thesis unfolding step(5) using c1 c2 by simp
  qed
qed

lemma loop_filePath:
  "keepsFilePath act opts \<Longrightarrow> loop act nxt e opts st out ls = (cs, h, u) \<Longrightarrow>
   h = Exhausted out' \<or> h = AtEnd out' \<Longrightarrow> filePath out' = filePath out"
proof (induction ls arbitrary: st out cs)
  case Nil
  from Nil.prems(2) Nil.prems(3) show ?case by (cases rule: loop_Nil_cases) auto
next
  case (Cons l ls)
  from Cons.prems(2) show ?case
  proof (cases rule: loop_Cons_cases)
    case stop
    with Cons.prems(3) show ?thesis by auto
  next
    case (action_throws m)
    with Cons.prems(3) show ?thesis by auto
  next
    case (next_throws out1 m)
    with Cons.prems(3) show ?thesis by auto
  next
    case (step out1 st' cs')
    from Cons.IH [OF Cons.prems(1) step(4) Cons.prems(3)]
    have "filePath out' = filePath out1" .
    moreover have "filePath out1 = filePath out"
      using Cons.prems(1) step(2) unfolding keepsFilePath_def by blast
    ultimately show ?thesis by simp
  qed
qed

lemma filePath_spreadInit:
  "fragmentKeepsFilePath frag \<Longrightarrow> filePath (spreadInit (startingOutput fp opts) frag) = fp"
  by (auto simp: fragmentKeepsFilePath_def spreadInit_def startingOutput_def split: option.splits)

lemma example_options: "parserOptions example_base None None = example_base"
  by (simp add: parserOptions_def collapseDefaultParserOptions_def)

lemma example_run:
  "runStateMachine example_base (example_format act nxt) ''a.pdf'' None inputs =
   loop act nxt True example_base False example_output inputs"
  by (simp add: runStateMachine_def example_format_def example_options spreadInit_def
      example_output_def)

subsection \<open>End of input before the end state\<close>

text \<open>
  Claim C1, as amended.  When the iterator is exhausted in a state other than the end state,
  the parse throws; nothing is returned.  The message is
  \<^verbatim>\<open>Reached end of input before hitting end state on\<close> followed by the \<^verbatim>\<open>filePath\<close>
  field of the output accumulated so far (line 112 reads \<^verbatim>\<open>output.filePath\<close>).  That
  field is the file path supplied to the parse call whenever the fragment carries no
  \<^verbatim>\<open>filePath\<close> and the action never changes the field.
\<close>

theorem exhausted_input_fails:
  assumes "runStateMachine base fmt fp ipo inputs = (calls, Exhausted out, unread)"
  shows "createParserStateMachine base fmt fp ipo inputs =
           Inl (Error (''Reached end of input before hitting end state on '' @ filePath out))
         \<and> str_includes (''Reached end of input before hitting end state on '' @ filePath out)
             (filePath out)
         \<and> (fragmentKeepsFilePath (initOutput fmt) \<and>
            keepsFilePath (action fmt) (parserOptions base (defaultParserOptions fmt) ipo)
            \<longrightarrow> filePath out = fp)"
proof -
  have 1: "createParserStateMachine base fmt fp ipo inputs =
      Inl (Error (''Reached end of input before hitting end state on '' @ filePath out))"
    using assms by (simp add: createParserStateMachine_def)
  have 2: "str_includes (''Reached end of input before hitting end state on '' @ filePath out)
      (filePath out)"
    by (rule str_includes_suffix)
  have 3: "filePath out = fp"
    if f: "fragmentKeepsFilePath (initOutput fmt)"
      and k: "keepsFilePath (action fmt) (parserOptions base (defaultParserOptions fmt) ipo)"
  proof -
    from assms have "loop (action fmt) (next' fmt) (endState fmt)
        (parserOptions base (defaultParserOptions fmt) ipo) (initialState fmt)
        (spreadInit (startingOutput fp (parserOptions base (defaultParserOptions fmt) ipo))
          (initOutput fmt)) inputs = (calls, Exhausted out, unread)"
      by (simp add: runStateMachine_def Let_def)
    from loop_filePath [OF k this] have "filePath out =
        filePath (spreadInit (startingOutput fp (parserOptions base (defaultParserOptions fmt) ipo))
          (initOutput fmt))" by simp
    with filePath_spreadInit [OF f] show ?thesis by simp
  qed
  from 1 2 3 show ?thesis by blast
qed

theorem exhausted_input_fails_witness:
  "createParserStateMachine example_base (example_format idle_action stay) ''a.pdf'' None
     [''x'', ''y''] =
   Inl (Error ''Reached end of input before hitting end state on a.pdf'')"
proof -
  have run: "runStateMachine example_base (example_format idle_action stay) ''a.pdf'' None
      [''x'', ''y''] =
      ([ActionCall False ''x'' example_output example_base, NextCall False ''x'',
        ActionCall False ''y'' example_output example_base, NextCall False ''y''],
       Exhausted example_output, [])"
    by (simp add: example_run idle_action_def stay_def)
  have fp: "filePath example_output = ''a.pdf''"
    by (simp add: example_output_def startingOutput_def)
  from exhausted_input_fails [OF run] show ?thesis by (simp add: fp)
qed

text \<open>
  The claim as stated, with the supplied file path in the message, fails for a format whose
  action replaces \<^verbatim>\<open>filePath\<close>: the supplied path \<^verbatim>\<open>a.pdf\<close> does not occur in the
  message.
\<close>

theorem exhausted_input_other_path:
  "createParserStateMachine example_base (example_format renaming_action stay) ''a.pdf'' None
     [''x''] =
   Inl (Error ''Reached end of input before hitting end state on other'')
   \<and> \<not> str_includes ''Reached end of input before hitting end state on other'' ''a.pdf''"
  by (simp add: createParserStateMachine_def example_run renaming_action_def stay_def)

lemma run_unfold:
  "runStateMachine base fmt fp ipo inputs =
   loop (action fmt) (next' fmt) (endState fmt)
     (parserOptions base (defaultParserOptions fmt) ipo) (initialState fmt)
     (spreadInit (startingOutput fp (parserOptions base (defaultParserOptions fmt) ipo))
       (initOutput fmt)) inputs"
  by (simp add: runStateMachine_def Let_def)

subsection \<open>The account suffix at the end state\<close>

text \<open>
  Claim C2, as amended.  When the loop ends in the end state and \<^verbatim>\<open>accountSuffix\<close> is
  empty, the parse throws \<^verbatim>\<open>Parse completed without filling in account suffix on\<close>
  followed by the \<^verbatim>\<open>filePath\<close> field of the final output, which is the supplied file path
  whenever the fragment carries no \<^verbatim>\<open>filePath\<close> and the action never changes the field.
  An output is returned only from the end state and only with a non-empty
  \<^verbatim>\<open>accountSuffix\<close>.
\<close>

theorem incomplete_output_fails:
  "(runStateMachine base fmt fp ipo inputs = (calls, AtEnd out, unread) \<and> accountSuffix out = []
      \<longrightarrow> createParserStateMachine base fmt fp ipo inputs =
            Inl (Error (''Parse completed without filling in account suffix on '' @ filePath out))
          \<and> str_includes
              (''Parse completed without filling in account suffix on '' @ filePath out)
              (filePath out)
          \<and> (fragmentKeepsFilePath (initOutput fmt) \<and>
             keepsFilePath (action fmt) (parserOptions base (defaultParserOptions fmt) ipo)
             \<longrightarrow> filePath out = fp))
   \<and> (createParserStateMachine base fmt fp ipo inputs = Inr out'
      \<longrightarrow> accountSuffix out' \<noteq> [] \<and>
          (\<exists>calls' unread'.
             runStateMachine base fmt fp ipo inputs = (calls', AtEnd out', unread')))"
proof (intro conjI impI)
  assume a: "runStateMachine base fmt fp ipo inputs = (calls, AtEnd out, unread) \<and>
    accountSuffix out = []"
  then show "createParserStateMachine base fmt fp ipo inputs =
      Inl (Error (''Parse completed without filling in account suffix on '' @ filePath out))"
    by (simp add: createParserStateMachine_def)
  show "str_includes (''Parse completed without filling in account suffix on '' @ filePath out)
      (filePath out)"
    by (rule str_includes_suffix)
  assume k: "fragmentKeepsFilePath (initOutput fmt) \<and>
    keepsFilePath (action fmt) (parserOptions base (defaultParserOptions fmt) ipo)"
  from a have "loop (action fmt) (next' fmt) (endState fmt)
      (parserOptions base (defaultParserOptions fmt) ipo) (initialState fmt)
      (spreadInit (startingOutput fp (parserOptions base (defaultParserOptions fmt) ipo))
        (initOutput fmt)) inputs = (calls, AtEnd out, unread)"
    by (simp add: run_unfold)
  from loop_filePath [OF conjunct2 [OF k] this] have "filePath out =
      filePath (spreadInit (startingOutput fp (parserOptions base (defaultParserOptions fmt) ipo))
        (initOutput fmt))" by simp
  with filePath_spreadInit [OF conjunct1 [OF k]] show "filePath out = fp" by simp
next
  assume r: "createParserStateMachine base fmt fp ipo inputs = Inr out'"
  obtain cs h u where run: "runStateMachine base fmt fp ipo inputs = (cs, h, u)"
    by (cases "runStateMachine base fmt fp ipo inputs") auto
  from r run have "h = AtEnd out' \<and> accountSuffix out' \<noteq> []"
    by (cases h) (auto simp: createParserStateMachine_def split: if_splits)
  with run show "accountSuffix out' \<noteq> []"
    and "\<exists>calls' unread'. runStateMachine base fmt fp ipo inputs = (calls', AtEnd out', unread')"
    by auto
qed

theorem incomplete_output_fails_witness:
  "createParserStateMachine example_base (example_format idle_action finish) ''a.pdf'' None
     [''x'', ''y''] =
   Inl (Error ''Parse completed without filling in account suffix on a.pdf'')
   \<and> createParserStateMachine example_base (example_format suffix_action finish) ''a.pdf'' None
     [''1234'', ''y''] = Inr (example_output\<lparr>accountSuffix := ''1234''\<rparr>)"
proof -
  have run: "runStateMachine example_base (example_format idle_action finish) ''a.pdf'' None
      [''x'', ''y''] =
      ([ActionCall False ''x'' example_output example_base, NextCall False ''x''],
       AtEnd example_output, [''y''])"
    by (simp add: example_run idle_action_def finish_def)
  have fp: "filePath example_output = ''a.pdf''" and sf: "accountSuffix example_output = []"
    by (simp_all add: example_output_def startingOutput_def)
  have 2: "createParserStateMachine example_base (example_format suffix_action finish) ''a.pdf''
      None [''1234'', ''y''] = Inr (example_output\<lparr>accountSuffix := ''1234''\<rparr>)"
    by (simp add: createParserStateMachine_def example_run suffix_action_def finish_def)
  from incomplete_output_fails [of example_base "example_format idle_action finish" "''a.pdf''"
      None "[''x'', ''y'']" "[ActionCall False ''x'' example_output example_base, NextCall False ''x'']"
      example_output "[''y'']" example_output, THEN conjunct1, THEN mp, OF conjI [OF run sf],
      THEN conjunct1]
  have "createParserStateMachine example_base (example_format idle_action finish) ''a.pdf'' None
      [''x'', ''y''] =
      Inl (Error (''Parse completed without filling in account suffix on '' @ filePath example_output))" .
  then have 1: "createParserStateMachine example_base (example_format idle_action finish) ''a.pdf''
      None [''x'', ''y''] =
      Inl (Error ''Parse completed without filling in account suffix on a.pdf'')"
    by (simp add: fp)
  from 1 2 show ?thesis by (rule conjI)
qed

text \<open>
  With an action that replaces \<^verbatim>\<open>filePath\<close>, the supplied path does not occur in the
  message.
\<close>

theorem incomplete_output_other_path:
  "createParserStateMachine example_base (example_format renaming_action finish) ''a.pdf'' None
     [''x''] =
   Inl (Error ''Parse completed without filling in account suffix on other'')
   \<and> \<not> str_includes ''Parse completed without filling in account suffix on other'' ''a.pdf''"
  by (simp add: createParserStateMachine_def example_run renaming_action_def finish_def
      example_output_def startingOutput_def)

subsection \<open>One action call and one transition call per line\<close>

text \<open>
  Claim C3, as amended.  The lines of the action calls, in order, are exactly the lines
  pulled from the iterator: one action call per consumed line.  The calls are the sequence
  \<open>paired\<close> of action call and transition call on the same state and line (the transition
  function sees the state and the line, not the output), except that when the action
  throws on the last consumed line, no transition call follows it.  A call that throws is
  the last call of the run and occurs once in it, and the run ends with the thrown value:
  when the action throws, the transition function is not invoked for that line and no
  further line is consumed.
\<close>

theorem calls_per_line:
  assumes "runStateMachine base fmt fp ipo inputs = (calls, h, unread)"
  shows "map (fst \<circ> snd) (actionCalls calls) @ unread = inputs
    \<and> (calls = paired (actionCalls calls)
       \<or> actionCalls calls \<noteq> [] \<and> calls = butlast (paired (actionCalls calls)) \<and>
         (\<exists>message. h = Raised message \<and>
            (case last (actionCalls calls) of
               (s, l, out, _) \<Rightarrow>
                 action fmt s l out (parserOptions base (defaultParserOptions fmt) ipo) =
                 Inl message)))
    \<and> (\<forall>c thrown. c \<in> set calls \<and> raises (action fmt) (next' fmt) c thrown \<longrightarrow>
          c = last calls \<and> c \<notin> set (butlast calls) \<and> h = Raised thrown)"
proof -
  from assms have l: "loop (action fmt) (next' fmt) (endState fmt)
      (parserOptions base (defaultParserOptions fmt) ipo) (initialState fmt)
      (spreadInit (startingOutput fp (parserOptions base (defaultParserOptions fmt) ipo))
        (initOutput fmt)) inputs = (calls, h, unread)"
    by (simp add: run_unfold)
  have 3: "\<forall>c thrown. c \<in> set calls \<and> raises (action fmt) (next' fmt) c thrown \<longrightarrow>
      c = last calls \<and> c \<notin> set (butlast calls) \<and> h = Raised thrown"
    using loop_raises_last [OF l] by blast
  from loop_consumed [OF l] loop_calls_shape [OF l] 3 show ?thesis by (intro conjI)
qed

theorem calls_per_line_witness:
  "map (fst \<circ> snd)
     (actionCalls (fst (runStateMachine example_base (example_format idle_action finish)
        ''a.pdf'' None [''x'', ''y'']))) @ [''y''] = [''x'', ''y'']
   \<and> fst (runStateMachine example_base (example_format idle_action finish)
        ''a.pdf'' None [''x'', ''y'']) = paired [(False, ''x'', example_output, example_base)]
   \<and> runStateMachine example_base (example_format picky_action stay) ''a.pdf'' None
        [''x'', ''y'', ''z''] =
      ([ActionCall False ''x'' example_output example_base, NextCall False ''x'',
        ActionCall False ''y'' example_output example_base], Raised (Error ''boom''), [''z''])
   \<and> ActionCall False ''y'' example_output example_base =
      last [ActionCall False ''x'' example_output example_base, NextCall False ''x'',
            ActionCall False ''y'' example_output example_base]
   \<and> ActionCall False ''y'' example_output example_base \<notin>
      set (butlast [ActionCall False ''x'' example_output example_base, NextCall False ''x'',
                    ActionCall False ''y'' example_output example_base])"
proof -
  have run: "runStateMachine example_base (example_format idle_action finish) ''a.pdf'' None
      [''x'', ''y''] =
      ([ActionCall False ''x'' example_output example_base, NextCall False ''x''],
       AtEnd example_output, [''y''])"
    by (simp add: example_run idle_action_def finish_def)
  from calls_per_line [OF run, THEN conjunct1]
  have 1: "map (fst \<circ> snd)
      (actionCalls [ActionCall False ''x'' example_output example_base, NextCall False ''x'']) @
      [''y''] = [''x'', ''y'']" .
  from calls_per_line [OF run, THEN conjunct2, THEN conjunct1]
  have 2: "[ActionCall False ''x'' example_output example_base, NextCall False ''x''] =
      paired (actionCalls [ActionCall False ''x'' example_output example_base,
        NextCall False ''x''])"
    by simp
  have 3: "actionCalls [ActionCall False ''x'' example_output example_base, NextCall False ''x''] =
      [(False, ''x'', example_output, example_base)]"
    by (simp add: actionCalls_simps)
  have thrown: "runStateMachine example_base (example_format picky_action stay) ''a.pdf'' None
      [''x'', ''y'', ''z''] =
      ([ActionCall False ''x'' example_output example_base, NextCall False ''x'',
        ActionCall False ''y'' example_output example_base], Raised (Error ''boom''), [''z''])"
    by (simp add: example_run picky_action_def stay_def)
  have r: "ActionCall False ''y'' example_output example_base \<in>
        set [ActionCall False ''x'' example_output example_base, NextCall False ''x'',
             ActionCall False ''y'' example_output example_base] \<and>
      raises (action (example_format picky_action stay)) (next' (example_format picky_action stay))
        (ActionCall False ''y'' example_output example_base) (Error ''boom'')"
    by (simp add: raises_def example_format_def picky_action_def)
  from calls_per_line [OF thrown, THEN conjunct2, THEN conjunct2, THEN spec, THEN spec, THEN mp,
      OF r]
  have 4: "ActionCall False ''y'' example_output example_base =
        last [ActionCall False ''x'' example_output example_base, NextCall False ''x'',
              ActionCall False ''y'' example_output example_base] \<and>
      ActionCall False ''y'' example_output example_base \<notin>
        set (butlast [ActionCall False ''x'' example_output example_base, NextCall False ''x'',
                      ActionCall False ''y'' example_output example_base])"
    by blast
  have 12: "map (fst \<circ> snd)
       (actionCalls (fst (runStateMachine example_base (example_format idle_action finish)
          ''a.pdf'' None [''x'', ''y'']))) @ [''y''] = [''x'', ''y'']
     \<and> fst (runStateMachine example_base (example_format idle_action finish)
          ''a.pdf'' None [''x'', ''y'']) = paired [(False, ''x'', example_output, example_base)]"
    using 1 2 unfolding run fst_conv 3 by (rule conjI)
  from 12 thrown 4 show ?thesis by blast
qed

text \<open>
  The claim as stated fails on a line whose action call throws: the line is consumed, the
  action is called once and the transition function is not called.
\<close>

theorem action_throws_no_transition:
  "runStateMachine example_base (example_format throwing_action stay) ''a.pdf'' None [''x''] =
     ([ActionCall False ''x'' example_output example_base], Raised (Error ''boom''), [])
   \<and> [ActionCall False ''x'' example_output example_base] \<noteq>
     paired (actionCalls [ActionCall False ''x'' example_output example_base])"
  by (simp add: example_run throwing_action_def actionCalls_simps)

subsection \<open>Errors of the action and the transition function\<close>




subsection \<open>The loop stops at the end state\<close>

text \<open>
  Claim C7.  If the end state is reached when exactly the prefix \<open>pre\<close> has been consumed,
  then on any longer sequence \<open>pre @ post\<close> the run makes the same calls, all of them on
  lines of \<open>pre\<close>, ends with the same output, and leaves \<open>post\<close> unread.
\<close>

theorem stops_at_end_state:
  assumes "runStateMachine base fmt fp ipo pre = (calls, AtEnd out, [])"
  shows "runStateMachine base fmt fp ipo (pre @ post) = (calls, AtEnd out, post)
    \<and> map (fst \<circ> snd) (actionCalls calls) = pre
    \<and> calls = paired (actionCalls calls)"
proof -
  from assms have l: "loop (action fmt) (next' fmt) (endState fmt)
      (parserOptions base (defaultParserOptions fmt) ipo) (initialState fmt)
      (spreadInit (startingOutput fp (parserOptions base (defaultParserOptions fmt) ipo))
        (initOutput fmt)) pre = (calls, AtEnd out, [])"
    by (simp add: run_unfold)
  from loop_AtEnd_append [OF l, of post]
  have 1: "runStateMachine base fmt fp ipo (pre @ post) = (calls, AtEnd out, post)"
    by (simp add: run_unfold)
  from loop_consumed [OF l] have 2: "map (fst \<circ> snd) (actionCalls calls) = pre" by simp
  from loop_calls_shape [OF l] have 3: "calls = paired (actionCalls calls)" by auto
  from 1 2 3 show ?thesis by simp
qed

theorem stops_at_end_state_witness:
  "runStateMachine example_base (example_format idle_action finish) ''a.pdf'' None
     ([''x''] @ [''y'', ''z'']) =
   ([ActionCall False ''x'' example_output example_base, NextCall False ''x''],
    AtEnd example_output, [''y'', ''z''])"
proof -
  have run: "runStateMachine example_base (example_format idle_action finish) ''a.pdf'' None
      [''x''] =
      ([ActionCall False ''x'' example_output example_base, NextCall False ''x''], AtEnd example_output, [])"
    by (simp add: example_run idle_action_def finish_def)
  from stops_at_end_state [OF run, of "[''y'', ''z'']"] show ?thesis by simp
qed

subsection \<open>Option precedence\<close>

lemma parserOptions_field:
  "parserOptions base formatDefaults callerOverrides field =
   specPrecedence base formatDefaults callerOverrides field"
  by (simp add: parserOptions_def collapseDefaultParserOptions_def map_add_def specPrecedence_def
      split: option.splits)

lemma loop_options:
  "loop act nxt e opts st out ls = (cs, h, u) \<Longrightarrow> ActionCall s l out' opts' \<in> set cs \<Longrightarrow>
   opts' = opts"
proof (induction ls arbitrary: st out cs)
  case Nil
  from Nil.prems(1) Nil.prems(2) show ?case by (cases rule: loop_Nil_cases) simp_all
next
  case (Cons x ls)
  from Cons.prems(1) show ?case
  proof (cases rule: loop_Cons_cases)
    case stop
    with Cons.prems(2) show ?thesis by simp
  next
    case (action_throws m)
    with Cons.prems(2) show ?thesis by simp
  next
    case (next_throws out1 m)
    with Cons.prems(2) show ?thesis by auto
  next
    case (step out1 st' cs')
    from Cons.prems(2) have "opts' = opts \<or> ActionCall s l out' opts' \<in> set cs'"
      unfolding step(5) by auto
    with Cons.IH [OF step(4)] show ?thesis by blast
  qed
qed

lemma loop_first_call:
  "loop act nxt e opts st out ls = (ActionCall s l out' opts' # rest, h, u) \<Longrightarrow> out' = out"
proof (cases ls)
  case Nil
  assume "loop act nxt e opts st out ls = (ActionCall s l out' opts' # rest, h, u)"
  with Nil show ?thesis by (simp split: if_splits)
next
  case (Cons x xs)
  assume "loop act nxt e opts st out ls = (ActionCall s l out' opts' # rest, h, u)"
  then have "loop act nxt e opts st out (x # xs) = (ActionCall s l out' opts' # rest, h, u)"
    using Cons by simp
  then show ?thesis by (cases rule: loop_Cons_cases) simp_all
qed

lemma loop_no_action:
  "loop act nxt e opts st out ls = (cs, AtEnd out', u) \<Longrightarrow> actionCalls cs = [] \<Longrightarrow> out' = out"
proof (cases ls)
  case Nil
  assume "loop act nxt e opts st out ls = (cs, AtEnd out', u)"
  with Nil show ?thesis by (simp split: if_splits)
next
  case (Cons x xs)
  assume a: "actionCalls cs = []"
  assume "loop act nxt e opts st out ls = (cs, AtEnd out', u)"
  with Cons have "loop act nxt e opts st out (x # xs) = (cs, AtEnd out', u)" by simp
  then show ?thesis using a by (cases rule: loop_Cons_cases) (simp_all add: actionCalls_simps)
qed

lemma loop_last_output:
  "loop act nxt e opts st out ls = (cs, AtEnd out', u) \<Longrightarrow> actionCalls cs \<noteq> [] \<Longrightarrow>
   (case last (actionCalls cs) of (s, l, out0, opts0) \<Rightarrow> act s l out0 opts0 = Inr out')"
proof (induction ls arbitrary: st out cs)
  case Nil
  from Nil.prems(1) Nil.prems(2) show ?case
    by (cases rule: loop_Nil_cases) (simp_all add: actionCalls_simps)
next
  case (Cons x ls)
  from Cons.prems(1) show ?case
  proof (cases rule: loop_Cons_cases)
    case stop
    with Cons.prems(2) show ?thesis by (simp add: actionCalls_simps)
  next
    case (step out1 st' cs')
    have ac: "actionCalls cs = (st, x, out, opts) # actionCalls cs'"
      unfolding step(5) by (simp add: actionCalls_simps)
    show ?thesis
    proof (cases "actionCalls cs' = []")
      case True
      from loop_no_action [OF step(4) True] have "out' = out1" .
      with step(2) True show ?thesis unfolding ac by simp
    next
      case False
      from Cons.IH [OF step(4) False] False show ?thesis unfolding ac by simp
    qed
  qed simp_all
qed

text \<open>
  Claim C4.  In a parse, every call of the action function receives the resolved options,
  and these hold, for every field, the caller's value when the caller supplied one,
  otherwise the format's default when the format supplied one, otherwise the base default.
  The year prefix of the starting output, which the first action call receives, is taken
  from the same resolved options.  The output with which the run ends is what the last
  action call returned on these options.  The parse made by the parser that
  \<^verbatim>\<open>createStatementParser\<close> returns is this run, on the flattened pages, with the caller's
  options of the parse call and the defaults of the format definition: what it returns is
  the output at the end of this run.
\<close>

theorem option_precedence:
  assumes "runStateMachine base fmt fp ipo inputs = (calls, h, unread)"
  shows "(\<forall>s l out opts. ActionCall s l out opts \<in> set calls \<longrightarrow>
            (\<forall>field. opts field = specPrecedence base (defaultParserOptions fmt) ipo field))
    \<and> (\<forall>s l out opts rest. calls = ActionCall s l out opts # rest \<and> initOutput fmt = None \<longrightarrow>
            yearPrefix out = specPrecedence base (defaultParserOptions fmt) ipo ''yearPrefix'')
    \<and> (\<forall>out'. h = AtEnd out' \<and> actionCalls calls \<noteq> [] \<longrightarrow>
          (case last (actionCalls calls) of
             (s, l, out, opts) \<Rightarrow> action fmt s l out opts = Inr out'))
    \<and> (\<forall>sp process pages out'.
          createStatementParser base readPdf raw = Inr sp \<and>
          ParserInitInput.truncate raw = fmt \<and>
          (pdfProcessing raw = Given process \<or> pdfProcessing raw = Omitted \<and> process = readPdf) \<and>
          process fp = Inr pages \<and> flatten2dArray pages = inputs \<and>
          parser sp fp ipo debug = Inr out' \<longrightarrow>
          h = AtEnd out')"
proof -
  let ?opts = "parserOptions base (defaultParserOptions fmt) ipo"
  from assms have l: "loop (action fmt) (next' fmt) (endState fmt) ?opts (initialState fmt)
      (spreadInit (startingOutput fp ?opts) (initOutput fmt)) inputs = (calls, h, unread)"
    by (simp add: run_unfold)
  have 1: "\<forall>s l out opts. ActionCall s l out opts \<in> set calls \<longrightarrow>
      (\<forall>field. opts field = specPrecedence base (defaultParserOptions fmt) ipo field)"
  proof (intro allI impI)
    fix s l' out opts field
    assume "ActionCall s l' out opts \<in> set calls"
    from loop_options [OF l this] show
      "opts field = specPrecedence base (defaultParserOptions fmt) ipo field"
      by (simp add: parserOptions_field)
  qed
  have 2: "\<forall>s l out opts rest. calls = ActionCall s l out opts # rest \<and> initOutput fmt = None \<longrightarrow>
      yearPrefix out = specPrecedence base (defaultParserOptions fmt) ipo ''yearPrefix''"
  proof (intro allI impI)
    fix s l' out opts rest
    assume a: "calls = ActionCall s l' out opts # rest \<and> initOutput fmt = None"
    with l have "out = spreadInit (startingOutput fp ?opts) (initOutput fmt)"
      using loop_first_call by fastforce
    with a show "yearPrefix out = specPrecedence base (defaultParserOptions fmt) ipo ''yearPrefix''"
      by (simp add: spreadInit_def startingOutput_def parserOptions_field)
  qed
  have 3: "\<forall>sp process pages out'.
          createStatementParser base readPdf raw = Inr sp \<and>
          ParserInitInput.truncate raw = fmt \<and>
          (pdfProcessing raw = Given process \<or> pdfProcessing raw = Omitted \<and> process = readPdf) \<and>
          process fp = Inr pages \<and> flatten2dArray pages = inputs \<and>
          parser sp fp ipo debug = Inr out' \<longrightarrow>
          h = AtEnd out'"
  proof (intro allI impI)
    fix sp process pages out'
    assume a: "createStatementParser base readPdf raw = Inr sp \<and>
          ParserInitInput.truncate raw = fmt \<and>
          (pdfProcessing raw = Given process \<or> pdfProcessing raw = Omitted \<and> process = readPdf) \<and>
          process fp = Inr pages \<and> flatten2dArray pages = inputs \<and>
          parser sp fp ipo debug = Inr out'"
    then have sp: "createStatementParser base readPdf raw = Inr sp"
      and t: "ParserInitInput.truncate raw = fmt"
      and src: "pdfProcessing raw = Given process \<or> pdfProcessing raw = Omitted \<and> process = readPdf"
      and pg: "process fp = Inr pages" and fl: "flatten2dArray pages = inputs"
      and r: "parser sp fp ipo debug = Inr out'" by blast+
    from sp src pg fl t r have "(case createParserStateMachine base fmt fp ipo inputs of
        Inl e \<Rightarrow> Inl e
      | Inr output \<Rightarrow>
          (case outputValidation raw of
             None \<Rightarrow> Inr output
           | Some validate \<Rightarrow> (case validate output of Inl e \<Rightarrow> Inl e | Inr _ \<Rightarrow> Inr output))) =
        Inr out'"
      by (auto simp: createStatementParser_def Let_def)
    then have "createParserStateMachine base fmt fp ipo inputs = Inr out'"
      by (auto split: sum.splits option.splits)
    with assms show "h = AtEnd out'"
      by (cases h) (auto simp: createParserStateMachine_def split: if_splits)
  qed
  have 4: "\<forall>out'. h = AtEnd out' \<and> actionCalls calls \<noteq> [] \<longrightarrow>
      (case last (actionCalls calls) of
         (s, l, out, opts) \<Rightarrow> action fmt s l out opts = Inr out')"
  proof (intro allI impI)
    fix out'
    assume a: "h = AtEnd out' \<and> actionCalls calls \<noteq> []"
    with l have "loop (action fmt) (next' fmt) (endState fmt) ?opts (initialState fmt)
      (spreadInit (startingOutput fp ?opts) (initOutput fmt)) inputs = (calls, AtEnd out', unread)"
      by simp
    from loop_last_output [OF this] a
    show "case last (actionCalls calls) of
         (s, l, out, opts) \<Rightarrow> action fmt s l out opts = Inr out'"
      by simp
  qed
  from 1 2 4 3 show ?thesis by (intro conjI)
qed

theorem option_precedence_witness:
  "parserOptions example_base (Some [''yearPrefix'' \<mapsto> 19, ''bonus'' \<mapsto> 2])
     (Some [''yearPrefix'' \<mapsto> 18]) ''yearPrefix'' = Some 18
   \<and> parserOptions example_base (Some [''yearPrefix'' \<mapsto> 19, ''bonus'' \<mapsto> 2])
     (Some [''yearPrefix'' \<mapsto> 18]) ''bonus'' = Some 2
   \<and> yearPrefix (startingOutput ''a.pdf''
        (parserOptions example_base (Some [''yearPrefix'' \<mapsto> 19, ''bonus'' \<mapsto> 2])
          (Some [''yearPrefix'' \<mapsto> 18])) :: (unit, nat, unit) ParsedOutput) = Some 18
   \<and> parser (projr (createStatementParser example_base example_pdf layered_input)) ''a.pdf''
       (Some [''yearPrefix'' \<mapsto> 18]) False =
     Inr \<lparr>incomes = [], expenses = [], filePath = ''a.pdf'', yearPrefix = Some 18,
          accountSuffix = ''bonus'', endDate = None, startDate = None\<rparr>"
proof -
  let ?d = "Some [''yearPrefix'' \<mapsto> 19, ''bonus'' \<mapsto> (2::nat)]"
  let ?c = "Some [''yearPrefix'' \<mapsto> (18::nat)]"
  let ?P = "parserOptions example_base ?d ?c"
  let ?o = "startingOutput ''a.pdf'' ?P :: (unit, nat, unit) ParsedOutput"
  let ?fmt = "ParserInitInput.truncate layered_input"
  have d: "defaultParserOptions ?fmt = ?d" and i: "initOutput ?fmt = None"
    and ac: "action ?fmt = bonus_action" and nx: "next' ?fmt = finish"
    and e: "endState ?fmt = True" and s: "initialState ?fmt = False"
    by (simp_all add: ParserInitInput.truncate_def layered_input_def)
  have b: "?P ''bonus'' = Some 2"
    by (simp add: parserOptions_def collapseDefaultParserOptions_def map_add_def)
  have run: "runStateMachine example_base ?fmt ''a.pdf'' ?c [''x'', ''y''] =
      ([ActionCall False ''x'' ?o ?P, NextCall False ''x''],
       AtEnd (?o\<lparr>accountSuffix := ''bonus''\<rparr>), [''y''])"
    unfolding run_unfold d i ac nx e s
    by (simp add: spreadInit_def bonus_action_def b finish_def)
  note th = option_precedence [OF run, of example_pdf layered_input False]
  have m: "ActionCall False ''x'' ?o ?P \<in> set [ActionCall False ''x'' ?o ?P, NextCall False ''x'']"
    by simp
  from th [THEN conjunct1, THEN spec, THEN spec, THEN spec, THEN spec, THEN mp, OF m]
  have f: "?P field = specPrecedence example_base ?d ?c field" for field
    unfolding d by blast
  have 1: "?P ''yearPrefix'' = Some 18" and 2: "?P ''bonus'' = Some 2"
    unfolding f by (simp_all add: specPrecedence_def)
  from th [THEN conjunct2, THEN conjunct1] i
  have "yearPrefix ?o = specPrecedence example_base ?d ?c ''yearPrefix''"
    unfolding d by blast
  then have 3: "yearPrefix ?o = Some 18" by (simp add: specPrecedence_def)
  have sp: "createStatementParser example_base example_pdf layered_input =
      Inr (projr (createStatementParser example_base example_pdf layered_input))"
    by (simp add: createStatementParser_def Let_def)
  have p: "parser (projr (createStatementParser example_base example_pdf layered_input)) ''a.pdf''
      ?c False = Inr (?o\<lparr>accountSuffix := ''bonus''\<rparr>)"
    by (simp add: createStatementParser_def Let_def layered_input_def example_pdf_def
        flatten2dArray_def createParserStateMachine_def run [unfolded layered_input_def]
        startingOutput_def)
  have 4: "parser (projr (createStatementParser example_base example_pdf layered_input)) ''a.pdf''
       ?c False =
     Inr \<lparr>incomes = [], expenses = [], filePath = ''a.pdf'', yearPrefix = Some 18,
          accountSuffix = ''bonus'', endDate = None, startDate = None\<rparr>"
    unfolding p using 1 by (simp add: startingOutput_def)
  from 1 2 3 4 show ?thesis by blast
qed

subsection \<open>Registration of a format definition\<close>

text \<open>
  Claim C5, as amended.  \<^verbatim>\<open>createStatementParser\<close> checks nothing: for every format
  definition it returns the statement parser, with the keywords and the default options of
  the definition.  That a format with options of its own gives all their defaults is
  required by the TypeScript type of \<^verbatim>\<open>defaultParserOptions\<close> only.
\<close>

theorem createStatementParser_never_raises:
  "\<exists>sp. createStatementParser base readPdf rawInputs = Inr sp
     \<and> parserKeywords' sp = parserKeywords rawInputs
     \<and> defaultParserOptions'' sp = defaultParserOptions rawInputs"
  by (simp add: createStatementParser_def Let_def)

text \<open>
  A format whose action reads the option \<^verbatim>\<open>bonus\<close> and that supplies no default for it is
  registered without an error, and parses.
\<close>

lemma example_base_bonus: "example_base ''bonus'' = None"
  by (simp add: example_base_def)

theorem missing_default_not_rejected:
  "\<not> isl (createStatementParser example_base example_pdf bonus_input)
   \<and> defaultParserOptions bonus_input = None
   \<and> parser (projr (createStatementParser example_base example_pdf bonus_input)) ''a.pdf'' None False
       = Inr (example_output\<lparr>accountSuffix := ''no bonus''\<rparr>)"
proof -
  have t: "ParserInitInput.truncate bonus_input = example_format bonus_action finish"
    by (simp add: ParserInitInput.truncate_def bonus_input_def example_format_def)
  have run: "createParserStateMachine example_base (example_format bonus_action finish) ''a.pdf''
      None [''x'', ''y''] = Inr (example_output\<lparr>accountSuffix := ''no bonus''\<rparr>)"
    by (simp add: createParserStateMachine_def example_run bonus_action_def finish_def
        example_base_bonus)
  have v: "outputValidation bonus_input = None" and d: "defaultParserOptions bonus_input = None"
    and p: "pdfProcessing bonus_input = Given example_pdf"
    by (simp_all add: bonus_input_def)
  show ?thesis
    by (simp add: createStatementParser_def Let_def t run v d p example_pdf_def flatten2dArray_def)
qed

section \<open>Properties of the outputs in the store\<close>






































subsection \<open>The outputs of two parse calls\<close>





section \<open>The PayPal parser on concrete statements\<close>

lemma match_header_data:
  "match ''Jan 1, 2021 - Jan 31, 2021 1234'' headerDataLineRegExp =
   Some [''Jan 1, 2021 - Jan 31, 2021 1234'', ''Jan 1, 2021'', ''Jan 31, 2021'', ''1234'']"
  by code_simp

lemma match_coffee:
  "match ''1/5/2021 Coffee Shop USD -4.50 0.00 -4.50'' transactionStartRegExp =
   Some [''1/5/2021 Coffee Shop USD -4.50 0.00 -4.50'', ''1/5/2021'', ''Coffee Shop '',
         ''-4.50'', ''0.00'', ''-4.50'']"
  by code_simp

lemma match_coffee_lower:
  "match (toLowerCase ''1/5/2021 Coffee Shop USD -4.50 0.00 -4.50'') transactionStartRegExp =
   Some [''1/5/2021 coffee shop usd -4.50 0.00 -4.50'', ''1/5/2021'', ''coffee shop '',
         ''-4.50'', ''0.00'', ''-4.50'']"
  by code_simp

lemma match_notice:
  "match ''you must notify us no later than ...'' transactionStartRegExp = None"
  by code_simp

lemma number_values:
  "Number ''-4.50'' = Finite (- (9 / 2))" "Number ''0.00'' = Finite 0"
  by code_simp+

lemma next_0: "nextState aug Header ''header'' = Header"
  by code_simp

lemma next_1: "nextState aug Header ''statement period'' = HeaderData"
  by code_simp

lemma next_2: "nextState aug HeaderData ''Jan 1, 2021 - Jan 31, 2021 1234'' = Header"
  by code_simp

lemma next_3: "nextState aug Header ''date description currency amount fees total'' = ActivityHeader"
  by code_simp

lemma next_4: "nextState aug ActivityHeader [] = Activity"
  by code_simp

lemma next_6: "nextState aug ExpenseInside [] = Activity"
  by code_simp

lemma next_7: "nextState aug s ''you must notify us no later than ...'' = End"
  by code_simp

lemma action_idle:
  "currentState = Header \<or> currentState = ActivityHeader \<or> currentState = End \<Longrightarrow>
   performStateAction aug currentState line output opts = Inr output"
  by (auto simp: performStateAction_def)

lemma action_blank:
  "currentState = ExpenseInside \<or> currentState = IncomeInside \<Longrightarrow>
   performStateAction aug currentState [] output opts = Inr output"
  by (auto simp: performStateAction_def)

text \<open>
  Claim C9.  On the eight lines of \<open>scenario\<close> the PayPal format definition returns one
  expense (Coffee Shop, amount 4.50, fees 0, base amount 4.50, dated 2021-01-05), no income,
  the account suffix 1234 and the period 2021-01-01 to 2021-01-31.  The helpers of
  \<^verbatim>\<open>augments\<close> enter through their values on the strings that the parser passes to them.
\<close>

theorem paypal_scenario:
  fixes base :: "'v options"
  assumes named1: "dateFromNamedCommaFormat aug ''Jan 1, 2021'' = Inr (2021, 1, 1)"
    and named2: "dateFromNamedCommaFormat aug ''Jan 31, 2021'' = Inr (2021, 1, 31)"
    and slash: "dateFromSlashFormat aug ''1/5/2021'' = Inr (2021, 1, 5)"
    and spaces: "collapseSpaces aug ''Coffee Shop '' = ''Coffee Shop''"
    and number1: "sanitizeNumberString aug ''-4.50'' = ''-4.50''"
    and number2: "sanitizeNumberString aug ''0.00'' = ''0.00''"
  shows "createParserStateMachine base (paypalInit aug) fp ipo scenario =
     Inr \<lparr>incomes = [],
          expenses =
            [\<lparr>date = (2021, 1, 5), description = ''Coffee Shop'', amount = Finite (9 / 2),
              fees = Finite 0, baseAmount = Finite (9 / 2),
              originalText = [''1/5/2021 Coffee Shop USD -4.50 0.00 -4.50'']\<rparr>],
          filePath = fp,
          yearPrefix = parserOptions base None ipo ''yearPrefix'',
          accountSuffix = ''1234'',
          endDate = Some (2021, 1, 31),
          startDate = Some (2021, 1, 1)\<rparr>"
proof -
  let ?opts = "parserOptions base None ipo"
  let ?o0 = "startingOutput fp ?opts :: 'v PaypalOutput"
  let ?o1 = "?o0\<lparr>startDate := Some (2021, 1, 1), endDate := Some (2021, 1, 31),
    accountSuffix := ''1234''\<rparr>"
  let ?tx = "\<lparr>date = (2021, 1, 5), description = ''Coffee Shop'', amount = Finite (9 / 2),
    fees = Finite 0, baseAmount = Finite (9 / 2),
    originalText = [''1/5/2021 Coffee Shop USD -4.50 0.00 -4.50'']\<rparr>"
  let ?o2 = "?o1\<lparr>expenses := [?tx]\<rparr>"
  have a2: "performStateAction aug HeaderData ''Jan 1, 2021 - Jan 31, 2021 1234'' ?o0 ?opts =
      Inr ?o1"
    by (simp add: performStateAction_def match_header_data named1 named2 startingOutput_def)
  have a5: "performStateAction aug Activity ''1/5/2021 Coffee Shop USD -4.50 0.00 -4.50'' ?o1 ?opts =
      Inr ?o2"
    by (simp add: performStateAction_def match_coffee slash spaces number1 number2 number_values
        Math_abs_def lessThanZero_def startingOutput_def)
  have a7: "performStateAction aug Activity ''you must notify us no later than ...'' ?o2 ?opts =
      Inr ?o2"
    by (simp add: performStateAction_def match_notice)
  have n5: "nextState aug Activity ''1/5/2021 Coffee Shop USD -4.50 0.00 -4.50'' = ExpenseInside"
    by (simp add: nextState_def Let_def match_coffee_lower number1 number_values lessThanZero_def)
      code_simp
  have run: "runStateMachine base (paypalInit aug) fp ipo scenario =
      (paired [(Header, ''header'', ?o0, ?opts), (Header, ''statement period'', ?o0, ?opts),
         (HeaderData, ''Jan 1, 2021 - Jan 31, 2021 1234'', ?o0, ?opts),
         (Header, ''date description currency amount fees total'', ?o1, ?opts),
         (ActivityHeader, [], ?o1, ?opts),
         (Activity, ''1/5/2021 Coffee Shop USD -4.50 0.00 -4.50'', ?o1, ?opts),
         (ExpenseInside, [], ?o2, ?opts),
         (Activity, ''you must notify us no later than ...'', ?o2, ?opts)],
       AtEnd ?o2, [])"
    by (simp add: runStateMachine_def Let_def paypalInit_def scenario_def spreadInit_def
        action_idle action_blank a2 a5 a7 n5 next_0 next_1 next_2 next_3 next_4 next_6 next_7)
  show ?thesis
    by (simp add: createParserStateMachine_def run startingOutput_def)
qed

theorem paypal_scenario_witness:
  "createParserStateMachine example_base (paypalInit example_augments) ''a.pdf'' None scenario =
     Inr \<lparr>incomes = [],
          expenses =
            [\<lparr>date = (2021, 1, 5), description = ''Coffee Shop'', amount = Finite (9 / 2),
              fees = Finite 0, baseAmount = Finite (9 / 2),
              originalText = [''1/5/2021 Coffee Shop USD -4.50 0.00 -4.50'']\<rparr>],
          filePath = ''a.pdf'',
          yearPrefix = Some 20,
          accountSuffix = ''1234'',
          endDate = Some (2021, 1, 31),
          startDate = Some (2021, 1, 1)\<rparr>"
proof -
  have t: "trim ''Coffee Shop '' = ''Coffee Shop''" by code_simp
  have "createParserStateMachine example_base (paypalInit example_augments) ''a.pdf'' None scenario =
     Inr \<lparr>incomes = [],
          expenses =
            [\<lparr>date = (2021, 1, 5), description = ''Coffee Shop'', amount = Finite (9 / 2),
              fees = Finite 0, baseAmount = Finite (9 / 2),
              originalText = [''1/5/2021 Coffee Shop USD -4.50 0.00 -4.50'']\<rparr>],
          filePath = ''a.pdf'',
          yearPrefix = parserOptions example_base None None ''yearPrefix'',
          accountSuffix = ''1234'',
          endDate = Some (2021, 1, 31),
          startDate = Some (2021, 1, 1)\<rparr>"
    by (rule paypal_scenario) (simp_all add: example_augments_def t)
  then show ?thesis unfolding example_options by (simp add: example_base_def)
qed

lemma match_refund:
  "match ''1/5/2021 Refund USD 1.00 -2.00 -1.00'' transactionStartRegExp =
   Some [''1/5/2021 Refund USD 1.00 -2.00 -1.00'', ''1/5/2021'', ''Refund '',
         ''1.00'', ''-2.00'', ''-1.00'']"
  by code_simp

lemma match_refund_lower:
  "match (toLowerCase ''1/5/2021 Refund USD 1.00 -2.00 -1.00'') transactionStartRegExp =
   Some [''1/5/2021 refund usd 1.00 -2.00 -1.00'', ''1/5/2021'', ''refund '',
         ''1.00'', ''-2.00'', ''-1.00'']"
  by code_simp

lemma refund_no_trigger:
  "\<not> str_includes (toLowerCase ''1/5/2021 Refund USD 1.00 -2.00 -1.00'')
      ''you must notify us no later than''"
  by code_simp

lemma number_values_refund:
  "Number ''1.00'' = Finite 1" "Number ''-2.00'' = Finite (- 2)" "Number ''-1.00'' = Finite (- 1)"
  by code_simp+

text \<open>
  Claim C10 at a line whose amount column is positive and whose total column is negative.
  The action chooses the list by the sign of the amount column (line 70): the transaction
  goes to \<^verbatim>\<open>incomes\<close>.  The transition function reads the total column (line 122) and
  moves to \<^verbatim>\<open>ExpenseInside\<close>.  The next non-empty line is then appended to the last
  expense, of which there is none, and the parse fails.
\<close>

theorem paypal_list_follows_amount_column:
  fixes base :: "'v options" and out0 :: "'v PaypalOutput"
  assumes slash: "dateFromSlashFormat aug ''1/5/2021'' = Inr (2021, 1, 5)"
    and amount_column: "sanitizeNumberString aug ''1.00'' = ''1.00''"
    and fees_column: "sanitizeNumberString aug ''-2.00'' = ''-2.00''"
    and total_column: "sanitizeNumberString aug ''-1.00'' = ''-1.00''"
  shows "performStateAction aug Activity ''1/5/2021 Refund USD 1.00 -2.00 -1.00'' out0 opts =
      Inr (out0\<lparr>incomes := incomes out0 @
        [\<lparr>date = (2021, 1, 5), description = collapseSpaces aug ''Refund '',
          amount = Finite 1, fees = Finite 2, baseAmount = Finite 1,
          originalText = [''1/5/2021 Refund USD 1.00 -2.00 -1.00'']\<rparr>]\<rparr>)
    \<and> nextState aug Activity ''1/5/2021 Refund USD 1.00 -2.00 -1.00'' = ExpenseInside
    \<and> createParserStateMachine base (paypalInit aug) fp ipo fee_scenario =
      Inl (Error (readOfUndefined ''description'' @ '' in file: '' @ fp))"
proof -
  let ?opts = "parserOptions base None ipo"
  let ?o0 = "startingOutput fp ?opts :: 'v PaypalOutput"
  let ?tx = "\<lparr>date = (2021, 1, 5), description = collapseSpaces aug ''Refund '',
          amount = Finite 1, fees = Finite 2, baseAmount = Finite 1,
          originalText = [''1/5/2021 Refund USD 1.00 -2.00 -1.00'']\<rparr>"
  have a: "performStateAction aug Activity ''1/5/2021 Refund USD 1.00 -2.00 -1.00'' out opts' =
      Inr (out\<lparr>incomes := incomes out @ [?tx]\<rparr>)" for out :: "'v PaypalOutput" and opts'
    by (simp add: performStateAction_def Let_def match_refund slash amount_column fees_column
        total_column number_values_refund Math_abs_def lessThanZero_def)
  have n: "nextState aug Activity ''1/5/2021 Refund USD 1.00 -2.00 -1.00'' = ExpenseInside"
    by (simp add: nextState_def Let_def match_refund_lower refund_no_trigger total_column
        number_values_refund lessThanZero_def)
  have m: "performStateAction aug ExpenseInside ''more'' out opts' =
      Inl (Error (readOfUndefined ''description''))"
    if "expenses out = []" for out :: "'v PaypalOutput" and opts'
    using that by (simp add: performStateAction_def appendLine_def)
  have run: "runStateMachine base (paypalInit aug) fp ipo fee_scenario =
      ([ActionCall Header ''date description currency amount fees total'' ?o0 ?opts,
        NextCall Header ''date description currency amount fees total'',
        ActionCall ActivityHeader [] ?o0 ?opts, NextCall ActivityHeader [],
        ActionCall Activity ''1/5/2021 Refund USD 1.00 -2.00 -1.00'' ?o0 ?opts,
        NextCall Activity ''1/5/2021 Refund USD 1.00 -2.00 -1.00'',
        ActionCall ExpenseInside ''more'' (?o0\<lparr>incomes := [?tx]\<rparr>) ?opts],
       Raised (Error (readOfUndefined ''description'')), [])"
    by (simp add: runStateMachine_def Let_def paypalInit_def fee_scenario_def spreadInit_def
        action_idle a n m next_3 next_4 startingOutput_def)
  have "createParserStateMachine base (paypalInit aug) fp ipo fee_scenario =
      Inl (Error (readOfUndefined ''description'' @ '' in file: '' @ fp))"
    by (simp add: createParserStateMachine_def run)
  with a n show ?thesis by blast
qed

theorem paypal_list_follows_amount_column_witness:
  "createParserStateMachine example_base (paypalInit example_augments) ''a.pdf'' None fee_scenario =
     Inl (Error (readOfUndefined ''description'' @ '' in file: a.pdf''))"
proof -
  have "createParserStateMachine example_base (paypalInit example_augments) ''a.pdf'' None
      fee_scenario = Inl (Error (readOfUndefined ''description'' @ '' in file: '' @ ''a.pdf''))"
    by (rule paypal_list_follows_amount_column [THEN conjunct2, THEN conjunct2])
      (simp_all add: example_augments_def)
  then show ?thesis by simp
qed

end
